theory Spec2Isabelle
  imports Complex_Main "HOL-Library.Char_ord"
begin

section \<open>Peplink warranty checker: the data the script handles\<close>

text \<open>
  The script \<^verbatim>\<open>index.js\<close> reads its settings from the process environment, asks the
  InControl 2 API for a bearer token, the organizations and the devices of each
  organization, keeps the devices whose warranty ends within 90 days, and mails the
  result as CSV. Everything outside the script is gathered in one record, \<open>world\<close>:
  the environment, the answers of the HTTP endpoints, the JSON and date parsers of the
  runtime, the clock and the mail transport. The script is then a function of the world
  that returns how the process ended and the sequence of effects it performed.

  JavaScript strings are modelled as \<open>string\<close>. Time values are milliseconds since the
  epoch, as \<open>int\<close>; JavaScript holds them in doubles, which are exact on integers below
  \<open>2^53\<close>, far beyond any clock reading or warranty date.
\<close>

abbreviation LF :: char where
  "LF \<equiv> CHR 0x0A"

text \<open>A JavaScript \<^verbatim>\<open>Error\<close>: the constructor's name and the message.\<close>

datatype error = JsError string string

abbreviation Error :: "string \<Rightarrow> error" where
  "Error msg \<equiv> JsError ''Error'' msg"

fun error_to_string :: "error \<Rightarrow> string" where
  "error_to_string (JsError name msg) = name @ '': '' @ msg"

text \<open>A call of \<^verbatim>\<open>fetch\<close>: method, URL, headers and form body.\<close>

datatype request = Request string string "(string \<times> string) list" "(string \<times> string) list"

fun request_url :: "request \<Rightarrow> string" where
  "request_url (Request m u h b) = u"

record response =
  status :: nat
  raw_body :: string

text \<open>\<^verbatim>\<open>response.ok\<close> of the Fetch API: the status is in the range 200 to 299.\<close>

definition response_ok :: "response \<Rightarrow> bool" where
  "response_ok r \<longleftrightarrow> 200 \<le> status r \<and> status r \<le> 299"

text \<open>
  The payloads, at the shape the API documents. A field that is absent or \<^verbatim>\<open>null\<close> is
  \<open>None\<close>; \<open>expired\<close> is the truthiness of the field. A \<^verbatim>\<open>data\<close> member that is
  absent or not an array is \<open>None\<close>. Answers of another shape (a body that is
  \<^verbatim>\<open>null\<close>, a serial number that is a number) are outside the model.
\<close>

record tokenJson =
  access_token :: "string option"

record org =
  org_id :: string
  org_name :: string

record orgData =
  org_data :: "org list option"

record device =
  sn :: "string option"
  expiry_date :: "string option"
  expired :: bool

record devicesData =
  devices_data :: "device list option"

text \<open>
  What \<^verbatim>\<open>nodemailer.createTransport\<close> and \<^verbatim>\<open>sendMail\<close> are given. The field
  \<open>port\<close> holds the text of \<^verbatim>\<open>SMTP_PORT\<close>, which the script hands over as a number.
\<close>

record transport =
  host :: string
  port :: string
  secure :: bool
  auth_user :: string
  auth_pass :: string

record mailOptions =
  mail_from :: string
  mail_to :: string
  subject :: string
  mail_text :: string
  attachment_filename :: string
  attachment_content :: string

text \<open>
  The world of one run. \<open>env\<close> is \<^verbatim>\<open>process.env\<close> once \<^verbatim>\<open>dotenv\<close> has loaded the
  file. \<open>fetch\<close> answers a request, or rejects with an error. The three parsers are
  \<^verbatim>\<open>JSON.parse\<close> read at the three payloads, \<open>Inl\<close> being the error it throws.
  \<open>clock\<close> is the time value of \<^verbatim>\<open>new Date()\<close> at line 114, and \<open>date_parse\<close> the time
  value of \<^verbatim>\<open>new Date(text)\<close>, \<open>None\<close> for an invalid date. \<open>sendMail\<close> is the
  transport's \<^verbatim>\<open>sendMail\<close>: the message id, or the error it rejects with.
\<close>

record world =
  env :: "string \<Rightarrow> string option"
  fetch :: "request \<Rightarrow> error + response"
  parse_tokenJson :: "string \<Rightarrow> error + tokenJson"
  parse_orgData :: "string \<Rightarrow> error + orgData"
  parse_devicesData :: "string \<Rightarrow> error + devicesData"
  clock :: int
  date_parse :: "string \<Rightarrow> int option"
  sendMail :: "transport \<Rightarrow> mailOptions \<Rightarrow> error + string"

text \<open>The effects of a run, in the order they happen.\<close>

datatype event =
    Fetch request
  | ConsoleLog string
  | ConsoleError string "error option"
  | SendMail transport mailOptions

text \<open>How \<^verbatim>\<open>main\<close> ends: it returns, it calls \<^verbatim>\<open>process.exit\<close>, or it throws.\<close>

datatype completion = Returned | Exited nat | Threw error

section \<open>Helpers of the runtime\<close>

text \<open>
  \<^verbatim>\<open>!v\<close> on a string that may be missing: missing and empty strings are falsy. Where
  the script reads such a value after the test, the model reads it with \<open>the\<close>.
\<close>

definition falsy :: "string option \<Rightarrow> bool" where
  "falsy v \<longleftrightarrow> (case v of None \<Rightarrow> True | Some s \<Rightarrow> s = [])"

text \<open>Decimal digits of a number, as a template literal prints an integer.\<close>

fun show_nat :: "nat \<Rightarrow> string" where
  "show_nat n =
     (if n < 10 then [''0123456789'' ! n]
      else show_nat (n div 10) @ [''0123456789'' ! (n mod 10)])"

declare show_nat.simps [simp del]

definition show_int :: "int \<Rightarrow> string" where
  "show_int i = (if i < 0 then CHR ''-'' # show_nat (nat (- i)) else show_nat (nat i))"

text \<open>\<^verbatim>\<open>Array.prototype.join\<close>.\<close>

fun join :: "string \<Rightarrow> string list \<Rightarrow> string" where
  "join sep [] = []"
| "join sep [x] = x"
| "join sep (x # y # ys) = x @ sep @ join sep (y # ys)"

text \<open>The character class \<^verbatim>\<open>[a-zA-Z0-9]\<close>: three ranges of character codes.\<close>

definition is_alnum :: "char \<Rightarrow> bool" where
  "is_alnum c \<longleftrightarrow>
     (CHR ''a'' \<le> c \<and> c \<le> CHR ''z'') \<or> (CHR ''A'' \<le> c \<and> c \<le> CHR ''Z'')
       \<or> (CHR ''0'' \<le> c \<and> c \<le> CHR ''9'')"

text \<open>
  \<^verbatim>\<open>s.replace(re, r)\<close> for a global regular expression that matches single characters:
  every matching character is replaced by \<open>r\<close>, the others are kept.
\<close>

fun replace_chars :: "(char \<Rightarrow> bool) \<Rightarrow> string \<Rightarrow> string \<Rightarrow> string" where
  "replace_chars matches r [] = []"
| "replace_chars matches r (c # cs) =
     (if matches c then r @ replace_chars matches r cs
      else c # replace_chars matches r cs)"

text \<open>
  \<^verbatim>\<open>device.sn.replace(/[^a-zA-Z0-9]/g, '')\<close>. A character outside ASCII is several
  bytes in \<open>string\<close> and one or two code units in JavaScript; none of them is in the
  class, so the replacement removes all of them in both.
\<close>

definition normalize_serial :: "string \<Rightarrow> string" where
  "normalize_serial s = replace_chars (\<lambda>c. \<not> is_alnum c) [] s"

section \<open>The functions of index.js\<close>

definition TOKEN_ENDPOINT :: string where
  "TOKEN_ENDPOINT = ''https://api.ic.peplink.com/api/oauth2/token''"

definition ORG_ENDPOINT :: string where
  "ORG_ENDPOINT = ''https://api.ic.peplink.com/rest/o''"

definition DEV_ENDPOINT :: "string \<Rightarrow> string" where
  "DEV_ENDPOINT orgId = ''https://api.ic.peplink.com/rest/o/'' @ orgId @ ''/d?includeWarranty=true''"

definition token_request :: "string \<Rightarrow> string \<Rightarrow> request" where
  "token_request client_id client_secret =
     Request ''POST'' TOKEN_ENDPOINT
       [(''Content-Type'', ''application/x-www-form-urlencoded'')]
       [(''client_id'', client_id), (''client_secret'', client_secret),
        (''grant_type'', ''client_credentials'')]"

text \<open>
  \<^verbatim>\<open>getBearerToken\<close>: the token, or the error thrown, with the effects performed.
\<close>

definition getBearerToken :: "world \<Rightarrow> (error + string) \<times> event list" where
  "getBearerToken w =
     (let PEPLINK_CLIENT_ID = env w ''PEPLINK_CLIENT_ID'';
          PEPLINK_CLIENT_SECRET = env w ''PEPLINK_CLIENT_SECRET''
      in
      if falsy PEPLINK_CLIENT_ID \<or> falsy PEPLINK_CLIENT_SECRET
      then (Inl (Error ''Missing PEPLINK_CLIENT_ID or PEPLINK_CLIENT_SECRET in .env''), [])
      else
        let req = token_request (the PEPLINK_CLIENT_ID) (the PEPLINK_CLIENT_SECRET) in
        (case fetch w req of
           Inl err \<Rightarrow> (Inl err, [Fetch req])
         | Inr response \<Rightarrow>
             if \<not> response_ok response
             then (Inl (Error (''Failed to get token: '' @ show_nat (status response)
                                 @ '' - '' @ raw_body response)), [Fetch req])
             else
               (case parse_tokenJson w (raw_body response) of
                  Inl err \<Rightarrow>
                    (Inl (Error (''Failed to parse token JSON: '' @ error_to_string err)),
                     [Fetch req])
                | Inr tokenJson \<Rightarrow>
                    if falsy (access_token tokenJson)
                    then (Inl (Error ''No access_token in token response''), [Fetch req])
                    else (Inr (the (access_token tokenJson)), [Fetch req]))))"

text \<open>
  \<^verbatim>\<open>diffInDays\<close>: \<^verbatim>\<open>Math.ceil((date1 - date2) / msInDay)\<close>. The script divides in
  doubles; for differences of time values the rounded quotient has the ceiling of the
  exact one, which is what the model takes.
\<close>

definition msInDay :: int where
  "msInDay = 24 * 60 * 60 * 1000"

definition diffInDays :: "int \<Rightarrow> int \<Rightarrow> int" where
  "diffInDays date1 date2 = \<lceil>(of_int (date1 - date2) :: real) / of_int msInDay\<rceil>"

text \<open>
  The body of the loop over the devices of one organization (lines 157 to 174): the CSV
  lines after the device has been looked at. An expiry date that does not parse is an
  invalid date, and every comparison with an invalid date is false.
\<close>

definition csv_row :: "string \<Rightarrow> string \<Rightarrow> string \<Rightarrow> int \<Rightarrow> string \<Rightarrow> string" where
  "csv_row orgName serial expiry daysLeft isExpired =
     ''\"'' @ orgName @ ''\",\"'' @ serial @ ''\",\"'' @ expiry @ ''\",\"''
       @ show_int daysLeft @ ''\",\"'' @ isExpired @ ''\"''"

definition device_step ::
  "world \<Rightarrow> int \<Rightarrow> int \<Rightarrow> string \<Rightarrow> device \<Rightarrow> string list \<Rightarrow> string list" where
  "device_step w now cutoffDate orgName device csvLines =
     (if falsy (sn device) \<or> falsy (expiry_date device) then csvLines
      else
        let serial = normalize_serial (the (sn device));
            expiryDate = date_parse w (the (expiry_date device))
        in
        (case expiryDate of
           None \<Rightarrow> csvLines
         | Some t \<Rightarrow>
             if t \<le> cutoffDate
             then
               let daysLeft = diffInDays t now;
                   isExpired = (if expired device then ''YES'' else ''NO'')
               in csvLines @ [csv_row orgName serial (the (expiry_date device)) daysLeft isExpired]
             else csvLines))"

fun device_loop ::
  "world \<Rightarrow> int \<Rightarrow> int \<Rightarrow> string \<Rightarrow> device list \<Rightarrow> string list \<Rightarrow> string list" where
  "device_loop w now cutoffDate orgName [] csvLines = csvLines"
| "device_loop w now cutoffDate orgName (device # devices) csvLines =
     device_loop w now cutoffDate orgName devices
       (device_step w now cutoffDate orgName device csvLines)"

text \<open>The request for the devices of one organization and its \<^verbatim>\<open>try\<close> block (lines 127 to 143).\<close>

definition devices_request :: "string \<Rightarrow> string \<Rightarrow> request" where
  "devices_request token orgId =
     Request ''GET'' (DEV_ENDPOINT orgId) [(''Authorization'', ''Bearer '' @ token)] []"

definition fetch_devicesData :: "world \<Rightarrow> string \<Rightarrow> string \<Rightarrow> (error + devicesData) \<times> event list" where
  "fetch_devicesData w token orgId =
     (let req = devices_request token orgId in
      case fetch w req of
        Inl err \<Rightarrow> (Inl err, [Fetch req])
      | Inr devResponse \<Rightarrow>
          if \<not> response_ok devResponse
          then (Inl (Error (''Failed to fetch devices for org '' @ orgId @ '': ''
                              @ show_nat (status devResponse) @ '' - '' @ raw_body devResponse)),
                [Fetch req])
          else
            let log = ConsoleLog (''Raw device response for org '' @ orgId @ '': ''
                                    @ raw_body devResponse)
            in (case parse_devicesData w (raw_body devResponse) of
                  Inl err \<Rightarrow> (Inl err, [Fetch req, log])
                | Inr devicesData \<Rightarrow> (Inr devicesData, [Fetch req, log])))"

text \<open>
  The loop over the organizations (lines 118 to 176), on the pair of the CSV lines and
  the effects so far. A failed fetch is logged and the loop goes on to the next
  organization.
\<close>

fun org_loop ::
  "world \<Rightarrow> string \<Rightarrow> int \<Rightarrow> int \<Rightarrow> org list \<Rightarrow> string list \<times> event list
     \<Rightarrow> string list \<times> event list" where
  "org_loop w token now cutoffDate [] st = st"
| "org_loop w token now cutoffDate (org # orgs) (csvLines, tr) =
     (let orgId = org_id org;
          orgName = org_name org;
          tr1 = tr @ [ConsoleLog (LF # ''Fetching devices for org ID: '' @ orgId
                                   @ '' | Name: '' @ orgName)]
      in
      case fetch_devicesData w token orgId of
        (Inl err, evs) \<Rightarrow>
          org_loop w token now cutoffDate orgs
            (csvLines,
             tr1 @ evs @ [ConsoleError (''Error fetching devices for org '' @ orgId @ '':'')
                            (Some err)])
      | (Inr devicesData, evs) \<Rightarrow>
          let devices = (case devices_data devicesData of None \<Rightarrow> [] | Some ds \<Rightarrow> ds) in
          if devices = []
          then org_loop w token now cutoffDate orgs
                 (csvLines,
                  tr1 @ evs @ [ConsoleLog (''No devices found in org '' @ orgName @ ''.'')])
          else org_loop w token now cutoffDate orgs
                 (device_loop w now cutoffDate orgName devices csvLines, tr1 @ evs))"

text \<open>\<^verbatim>\<open>sendEmailWithCSV\<close>: it returns nothing and throws nothing; its effects.\<close>

definition sendEmailWithCSV :: "world \<Rightarrow> string \<Rightarrow> event list" where
  "sendEmailWithCSV w csvContent =
     (let SMTP_HOST = env w ''SMTP_HOST'';
          SMTP_PORT = env w ''SMTP_PORT'';
          SMTP_USER = env w ''SMTP_USER'';
          SMTP_PASS = env w ''SMTP_PASS'';
          SMTP_TO = env w ''SMTP_TO'';
          SMTP_FROM = env w ''SMTP_FROM''
      in
      if falsy SMTP_HOST \<or> falsy SMTP_PORT \<or> falsy SMTP_USER \<or> falsy SMTP_PASS \<or> falsy SMTP_TO
      then [ConsoleError ''Missing SMTP settings in .env. Cannot send email.'' None]
      else
        let transporter =
              \<lparr>host = the SMTP_HOST, port = the SMTP_PORT, secure = True,
               auth_user = the SMTP_USER, auth_pass = the SMTP_PASS\<rparr>;
            mailOptions =
              \<lparr>mail_from = (if falsy SMTP_FROM then the SMTP_USER else the SMTP_FROM),
               mail_to = the SMTP_TO,
               subject = ''Peplink Warranty Expiry Report'',
               mail_text = ''Please see attached CSV with devices expiring in <= 90 days.<br><b>Remember</b> that these are only representative of devices we have InControl access to!'',
               attachment_filename = ''peplink_ic2_warranty_report.csv'',
               attachment_content = csvContent\<rparr>
        in
        (case sendMail w transporter mailOptions of
           Inr messageId \<Rightarrow>
             [SendMail transporter mailOptions,
              ConsoleLog (''Email sent successfully: '' @ messageId)]
         | Inl err \<Rightarrow>
             [SendMail transporter mailOptions,
              ConsoleError ''Error sending email:'' (Some err)]))"

text \<open>The request for the organizations and its \<^verbatim>\<open>try\<close> block (lines 81 to 95).\<close>

definition orgs_request :: "string \<Rightarrow> request" where
  "orgs_request token = Request ''GET'' ORG_ENDPOINT [(''Authorization'', ''Bearer '' @ token)] []"

definition fetch_orgData :: "world \<Rightarrow> string \<Rightarrow> (error + orgData) \<times> event list" where
  "fetch_orgData w token =
     (let req = orgs_request token in
      case fetch w req of
        Inl err \<Rightarrow> (Inl err, [Fetch req])
      | Inr orgResponse \<Rightarrow>
          if \<not> response_ok orgResponse
          then (Inl (Error (''Failed to fetch orgs: '' @ show_nat (status orgResponse)
                              @ '' - '' @ raw_body orgResponse)), [Fetch req])
          else
            let log = ConsoleLog (LF # ''Raw organization response body: '' @ raw_body orgResponse)
            in (case parse_orgData w (raw_body orgResponse) of
                  Inl err \<Rightarrow> (Inl err, [Fetch req, log])
                | Inr orgData \<Rightarrow> (Inr orgData, [Fetch req, log])))"

definition csv_header :: string where
  "csv_header = ''org_name,serial_number,warranty_expiry_date,days_until_expiry,is_expired''"

text \<open>
  \<^verbatim>\<open>main\<close>. Besides how it ends and its effects, the model returns \<open>report\<close>: the
  value of \<^verbatim>\<open>csvLines\<close> when the loop over the organizations is over (line 178), or
  \<open>None\<close> when \<^verbatim>\<open>main\<close> ends before.
\<close>

record outcome =
  completion :: completion
  report :: "string list option"
  trace :: "event list"

definition main :: "world \<Rightarrow> outcome" where
  "main w =
     (case getBearerToken w of
        (Inl err, tr0) \<Rightarrow>
          \<lparr>completion = Exited 1, report = None,
           trace = tr0 @ [ConsoleError ''Error retrieving token:'' (Some err)]\<rparr>
      | (Inr token, tr0) \<Rightarrow>
          let tr1 = tr0 @ [ConsoleLog (''Token retrieved successfully: '' @ token)] in
          (case fetch_orgData w token of
             (Inl err, evs) \<Rightarrow>
               \<lparr>completion = Exited 1, report = None,
                trace = tr1 @ evs @ [ConsoleError ''Error fetching organizations:'' (Some err)]\<rparr>
           | (Inr orgData, evs) \<Rightarrow>
               let orgs = (case org_data orgData of None \<Rightarrow> [] | Some os \<Rightarrow> os) in
               if orgs = []
               then
                 \<lparr>completion = Returned, report = None,
                  trace = tr1 @ evs
                    @ [ConsoleLog (LF # ''No organizations found or insufficient permissions.'')]\<rparr>
               else
                 let tr2 = tr1 @ evs
                       @ [ConsoleLog (LF # ''Successfully retrieved '' @ show_nat (length orgs)
                                        @ '' organization(s).'')];
                     csvLines0 = [csv_header];
                     now = clock w;
                     cutoffDate = now + 90 * 24 * 60 * 60 * 1000;
                     (csvLines, tr3) = org_loop w token now cutoffDate orgs (csvLines0, tr2)
                 in
                 if length csvLines = 1
                 then
                   \<lparr>completion = Returned, report = Some csvLines,
                    trace = tr3
                      @ [ConsoleLog (LF # ''No devices found with warranty expiring within 90 days.'')]
                      @ sendEmailWithCSV w (join [LF] csvLines)\<rparr>
                 else
                   let csvContent = join [LF] csvLines in
                   \<lparr>completion = Returned, report = Some csvLines,
                    trace = tr3
                      @ [ConsoleLog (LF # ''==== CSV Output (Devices expiring in <= 90 days) ===='' ),
                         ConsoleLog csvContent]
                      @ sendEmailWithCSV w csvContent\<rparr>))"

text \<open>
  The last lines of the script: \<^verbatim>\<open>main().catch(...)\<close>. The exit code of the process
  and everything it did.
\<close>

definition run :: "world \<Rightarrow> nat \<times> event list" where
  "run w =
     (let out = main w in
      case completion out of
        Returned \<Rightarrow> (0, trace out)
      | Exited code \<Rightarrow> (code, trace out)
      | Threw err \<Rightarrow> (1, trace out @ [ConsoleError ''Unexpected error in main:'' (Some err)]))"

section \<open>Notions of the specification\<close>

text \<open>The characters the specification writes as \<^verbatim>\<open>[A-Za-z0-9]\<close>.\<close>

definition alnum_chars :: string where
  "alnum_chars =
     ''abcdefghijklmnopqrstuvwxyz'' @ ''ABCDEFGHIJKLMNOPQRSTUVWXYZ'' @ ''0123456789''"

text \<open>
  The lines one device adds to the report in a run of \<^verbatim>\<open>main\<close>: the loop body, with
  \<^verbatim>\<open>now\<close> and \<^verbatim>\<open>cutoffDate\<close> as \<^verbatim>\<open>main\<close> computes them, on an empty list.
\<close>

definition device_rows :: "world \<Rightarrow> string \<Rightarrow> device \<Rightarrow> string list" where
  "device_rows w orgName d =
     device_step w (clock w) (clock w + 90 * 24 * 60 * 60 * 1000) orgName d []"

text \<open>The devices the run obtains for an organization: none when the fetch fails.\<close>

definition fetched_devices :: "world \<Rightarrow> string \<Rightarrow> string \<Rightarrow> device list" where
  "fetched_devices w token orgId =
     (case fst (fetch_devicesData w token orgId) of
        Inl err \<Rightarrow> []
      | Inr devicesData \<Rightarrow> (case devices_data devicesData of None \<Rightarrow> [] | Some ds \<Rightarrow> ds))"

text \<open>
  The rows an organization adds, and the report of a run that has a token and a
  non-empty list of organizations: the header, then the rows of the organizations in
  the order of the list, the rows of each in the order of its devices.
\<close>

definition org_rows :: "world \<Rightarrow> string \<Rightarrow> org \<Rightarrow> string list" where
  "org_rows w token org =
     concat (map (device_rows w (org_name org)) (fetched_devices w token (org_id org)))"

definition report_lines :: "world \<Rightarrow> string \<Rightarrow> org list \<Rightarrow> string list" where
  "report_lines w token orgs = csv_header # concat (map (org_rows w token) orgs)"

text \<open>One of the five mail settings the script needs is absent or empty.\<close>

definition smtp_missing :: "world \<Rightarrow> bool" where
  "smtp_missing w \<longleftrightarrow>
     falsy (env w ''SMTP_HOST'') \<or> falsy (env w ''SMTP_PORT'') \<or> falsy (env w ''SMTP_USER'')
       \<or> falsy (env w ''SMTP_PASS'') \<or> falsy (env w ''SMTP_TO'')"

text \<open>A field wrapped in double quotes, its characters as they are.\<close>

definition quoted :: "string \<Rightarrow> string" where
  "quoted field = CHR 0x22 # field @ [CHR 0x22]"

text \<open>The effects of one turn of the loop over the organizations.\<close>

definition org_events :: "world \<Rightarrow> string \<Rightarrow> org \<Rightarrow> event list" where
  "org_events w token org =
     ConsoleLog (LF # ''Fetching devices for org ID: '' @ org_id org
                   @ '' | Name: '' @ org_name org)
     # snd (fetch_devicesData w token (org_id org))
     @ (case fst (fetch_devicesData w token (org_id org)) of
          Inl err \<Rightarrow>
            [ConsoleError (''Error fetching devices for org '' @ org_id org @ '':'') (Some err)]
        | Inr devicesData \<Rightarrow>
            (case devices_data devicesData of
               None \<Rightarrow> [ConsoleLog (''No devices found in org '' @ org_name org @ ''.'')]
             | Some [] \<Rightarrow> [ConsoleLog (''No devices found in org '' @ org_name org @ ''.'')]
             | Some (d # ds) \<Rightarrow> []))"

text \<open>The HTTP requests and the mails handed to the transport, among the effects.\<close>

fun fetches :: "event list \<Rightarrow> request list" where
  "fetches [] = []"
| "fetches (Fetch req # evs) = req # fetches evs"
| "fetches (ev # evs) = fetches evs"

fun mails :: "event list \<Rightarrow> mailOptions list" where
  "mails [] = []"
| "mails (SendMail t m # evs) = m # mails evs"
| "mails (ev # evs) = mails evs"

text \<open>The lines of a text: its pieces between line feeds, as \<^verbatim>\<open>split('\\n')\<close> gives them.\<close>

fun lines_of :: "string \<Rightarrow> string list" where
  "lines_of [] = [[]]"
| "lines_of (c # cs) =
     (if c = LF then [] # lines_of cs
      else (case lines_of cs of [] \<Rightarrow> [[c]] | l # ls \<Rightarrow> (c # l) # ls))"

section \<open>Example worlds\<close>

text \<open>
  Concrete worlds on which the script is run below. The clock stands at 1700000000000
  (2023-11-14T22:13:20Z); the example parsers know the few texts the example endpoints
  answer with.
\<close>

definition example_env :: "string \<Rightarrow> string option" where
  "example_env =
     map_of [(''PEPLINK_CLIENT_ID'', ''client-1''), (''PEPLINK_CLIENT_SECRET'', ''secret-1''),
             (''SMTP_HOST'', ''smtp.example.com''), (''SMTP_PORT'', ''465''),
             (''SMTP_USER'', ''ops@example.com''), (''SMTP_PASS'', ''pw-1''),
             (''SMTP_TO'', ''team@example.com'')]"

definition token_body :: string where
  \<open>token_body = ''{"access_token":"tok-1"}''\<close>

definition orgs_body_AB :: string where
  \<open>orgs_body_AB = ''{"data":[{"id":"a","name":"Alpha"},{"id":"b","name":"Beta"}]}''\<close>

definition orgs_body_G :: string where
  \<open>orgs_body_G = ''{"data":[{"id":"g","name":"Gamma"}]}''\<close>

text \<open>The name in this answer is \<^verbatim>\<open>North\nSouth\<close>, with JSON's escape for a line feed.\<close>

definition orgs_body_N :: string where
  \<open>orgs_body_N = ''{"data":[{"id":"b","name":"North'' @ [CHR 0x5C] @ ''nSouth"}]}''\<close>

definition orgs_body_empty :: string where
  \<open>orgs_body_empty = ''{"data":[]}''\<close>

definition devices_body_b :: string where
  \<open>devices_body_b =
     ''{"data":[{"sn":"AB-12 34","expiry_date":"2023-12-29T22:13:20.000Z","expired":false}]}''\<close>

definition devices_body_g :: string where
  \<open>devices_body_g =
     ''{"data":[{"sn":"AB-12 34","expiry_date":"2023-12-29T22:13:20.000Z","expired":false},''
     @ ''{"sn":"CD-5678","expiry_date":"2024-03-13T22:13:20.000Z","expired":true},''
     @ ''{"sn":"- -","expiry_date":"2024-02-12T22:13:20.000Z","expired":false},''
     @ ''{"sn":"EF-9","expiry_date":"2023-11-04T22:13:20.000Z","expired":true},''
     @ ''{"expiry_date":"2023-12-29T22:13:20.000Z","expired":false},''
     @ ''{"sn":"GH-1","expiry_date":"soon","expired":false},''
     @ ''{"sn":"IJ-2","expired":false}]}''\<close>

definition device_45 :: device where
  "device_45 = \<lparr>sn = Some ''AB-12 34'', expiry_date = Some ''2023-12-29T22:13:20.000Z'', expired = False\<rparr>"

definition example_parse_tokenJson :: "string \<Rightarrow> error + tokenJson" where
  "example_parse_tokenJson body =
     (if body = token_body then Inr \<lparr>access_token = Some ''tok-1''\<rparr>
      else if body = ''{}'' then Inr \<lparr>access_token = None\<rparr>
      else Inl (JsError ''SyntaxError'' ''Unexpected token''))"

definition example_parse_orgData :: "string \<Rightarrow> error + orgData" where
  "example_parse_orgData body =
     (if body = orgs_body_AB
      then Inr \<lparr>org_data = Some [\<lparr>org_id = ''a'', org_name = ''Alpha''\<rparr>,
                                 \<lparr>org_id = ''b'', org_name = ''Beta''\<rparr>]\<rparr>
      else if body = orgs_body_G
      then Inr \<lparr>org_data = Some [\<lparr>org_id = ''g'', org_name = ''Gamma''\<rparr>]\<rparr>
      else if body = orgs_body_N
      then Inr \<lparr>org_data = Some [\<lparr>org_id = ''b'', org_name = ''North'' @ [LF] @ ''South''\<rparr>]\<rparr>
      else if body = orgs_body_empty then Inr \<lparr>org_data = Some []\<rparr>
      else if body = ''{}'' then Inr \<lparr>org_data = None\<rparr>
      else Inl (JsError ''SyntaxError'' ''Unexpected token''))"

definition example_parse_devicesData :: "string \<Rightarrow> error + devicesData" where
  "example_parse_devicesData body =
     (if body = devices_body_b then Inr \<lparr>devices_data = Some [device_45]\<rparr>
      else if body = devices_body_g
      then Inr \<lparr>devices_data = Some
             [device_45,
              \<lparr>sn = Some ''CD-5678'', expiry_date = Some ''2024-03-13T22:13:20.000Z'', expired = True\<rparr>,
              \<lparr>sn = Some ''- -'', expiry_date = Some ''2024-02-12T22:13:20.000Z'', expired = False\<rparr>,
              \<lparr>sn = Some ''EF-9'', expiry_date = Some ''2023-11-04T22:13:20.000Z'', expired = True\<rparr>,
              \<lparr>sn = None, expiry_date = Some ''2023-12-29T22:13:20.000Z'', expired = False\<rparr>,
              \<lparr>sn = Some ''GH-1'', expiry_date = Some ''soon'', expired = False\<rparr>,
              \<lparr>sn = Some ''IJ-2'', expiry_date = None, expired = False\<rparr>]\<rparr>
      else Inl (JsError ''SyntaxError'' ''Unexpected token''))"

definition example_date_parse :: "string \<Rightarrow> int option" where
  "example_date_parse =
     map_of [(''2023-11-04T22:13:20.000Z'', 1699136000000),
             (''2023-12-29T22:13:20.000Z'', 1703888000000),
             (''2024-02-12T22:13:20.000Z'', 1707776000000),
             (''2024-03-13T22:13:20.000Z'', 1710368000000)]"

definition example_fetch :: "response \<Rightarrow> response \<Rightarrow> request \<Rightarrow> error + response" where
  "example_fetch token_response orgs_response req =
     (if request_url req = TOKEN_ENDPOINT then Inr token_response
      else if request_url req = ORG_ENDPOINT then Inr orgs_response
      else if request_url req = DEV_ENDPOINT ''a''
      then Inr \<lparr>status = 500, raw_body = ''Internal Server Error''\<rparr>
      else if request_url req = DEV_ENDPOINT ''b''
      then Inr \<lparr>status = 200, raw_body = devices_body_b\<rparr>
      else if request_url req = DEV_ENDPOINT ''g''
      then Inr \<lparr>status = 200, raw_body = devices_body_g\<rparr>
      else Inl (JsError ''TypeError'' ''fetch failed''))"

definition example_world ::
  "(string \<Rightarrow> string option) \<Rightarrow> response \<Rightarrow> response \<Rightarrow> error + string \<Rightarrow> world" where
  "example_world environment token_response orgs_response mail_result =
     \<lparr>env = environment,
      fetch = example_fetch token_response orgs_response,
      parse_tokenJson = example_parse_tokenJson,
      parse_orgData = example_parse_orgData,
      parse_devicesData = example_parse_devicesData,
      clock = 1700000000000,
      date_parse = example_date_parse,
      sendMail = (\<lambda>t m. mail_result)\<rparr>"

definition token_ok :: response where
  "token_ok = \<lparr>status = 200, raw_body = token_body\<rparr>"

definition orgs_ok :: "string \<Rightarrow> response" where
  "orgs_ok body = \<lparr>status = 200, raw_body = body\<rparr>"

definition mail_ok :: "error + string" where
  "mail_ok = Inr ''<msg-1@example.com>''"

text \<open>
  Scenario D of the specification: the devices of Alpha cannot be fetched, Beta has one
  device that expires in 45 days.
\<close>

definition scenario_D :: world where
  "scenario_D = example_world example_env token_ok (orgs_ok orgs_body_AB) mail_ok"

text \<open>One organization with seven devices, four of them with a serial number and a date that parses.\<close>

definition scenario_G :: world where
  "scenario_G = example_world example_env token_ok (orgs_ok orgs_body_G) mail_ok"

text \<open>One organization whose name holds a line feed.\<close>

definition scenario_N :: world where
  "scenario_N = example_world example_env token_ok (orgs_ok orgs_body_N) mail_ok"

text \<open>Scenario A: the API returns no organization.\<close>

definition scenario_A :: world where
  "scenario_A = example_world example_env token_ok (orgs_ok orgs_body_empty) mail_ok"

text \<open>Scenario E: the token endpoint answers 401.\<close>

definition scenario_E :: world where
  \<open>scenario_E =
     example_world example_env \<lparr>status = 401, raw_body = ''{"error":"invalid_client"}''\<rparr>
       (orgs_ok orgs_body_AB) mail_ok\<close>

text \<open>Scenario F: the mail transport throws.\<close>

definition scenario_F :: world where
  "scenario_F =
     example_world example_env token_ok (orgs_ok orgs_body_AB)
       (Inl (JsError ''Error'' ''connect ECONNREFUSED''))"

text \<open>The settings without \<^verbatim>\<open>SMTP_HOST\<close>, and without \<^verbatim>\<open>PEPLINK_CLIENT_SECRET\<close>.\<close>

definition scenario_no_smtp_host :: world where
  "scenario_no_smtp_host =
     example_world (example_env(''SMTP_HOST'' := None)) token_ok (orgs_ok orgs_body_AB) mail_ok"

definition scenario_no_secret :: world where
  "scenario_no_secret =
     example_world (example_env(''PEPLINK_CLIENT_SECRET'' := None)) token_ok
       (orgs_ok orgs_body_AB) mail_ok"

section \<open>Serial numbers\<close>

lemma replace_chars_empty: "replace_chars p [] s = filter (\<lambda>c. \<not> p c) s"
  by (induction s) auto

lemma normalize_serial_filter: "normalize_serial s = filter is_alnum s"
  by (simp add: normalize_serial_def replace_chars_empty)

lemma alnum_codes:
  "map char_of ([97..<123] @ [65..<91] @ [48..<58] :: nat list) = alnum_chars"
  unfolding alnum_chars_def by code_simp

lemma is_alnum_iff: "is_alnum c \<longleftrightarrow> c \<in> set alnum_chars"
proof
  assume "c \<in> set alnum_chars"
  then show "is_alnum c"
    by (auto simp: alnum_chars_def is_alnum_def less_eq_char_def)
next
  assume alnum: "is_alnum c"
  define n where "n = (of_char c :: nat)"
  have c: "c = char_of n"
    by (simp add: n_def)
  from alnum have "(97 \<le> n \<and> n \<le> 122) \<or> (65 \<le> n \<and> n \<le> 90) \<or> (48 \<le> n \<and> n \<le> 57)"
    by (simp add: is_alnum_def less_eq_char_def n_def)
  then have "n \<in> {97..<123} \<union> ({65..<91} \<union> {48..<58})"
    by auto
  then have "n \<in> set ([97..<123] @ [65..<91] @ [48..<58])"
    by (simp only: set_append set_upt)
  then have "char_of n \<in> set (map char_of ([97..<123] @ [65..<91] @ [48..<58] :: nat list))"
    by (simp only: set_map) (rule imageI)
  then show "c \<in> set alnum_chars"
    unfolding alnum_codes c .
qed

text \<open>
  C8. Normalizing a serial number keeps, in order, exactly its characters from
  \<^verbatim>\<open>[A-Za-z0-9]\<close> and removes all others; normalizing a normalized serial
  number changes nothing.
\<close>

theorem normalize_serial_exact_idempotent:
  "normalize_serial s = filter (\<lambda>c. c \<in> set alnum_chars) s
   \<and> normalize_serial (normalize_serial s) = normalize_serial s"
proof -
  have "is_alnum = (\<lambda>c. c \<in> set alnum_chars)"
    by (rule ext) (rule is_alnum_iff)
  then have "normalize_serial s = filter (\<lambda>c. c \<in> set alnum_chars) s"
    by (simp add: normalize_serial_filter)
  moreover have "normalize_serial (normalize_serial s) = normalize_serial s"
    by (simp add: normalize_serial_filter)
  ultimately show ?thesis
    by (rule conjI)
qed

section \<open>Days until expiry\<close>

lemma msInDay_val: "msInDay = 86400000"
  by (simp add: msInDay_def)

lemma diffInDays_div: "diffInDays a b = - ((b - a) div msInDay)"
proof -
  have "\<lceil>(of_int (a - b) :: real) / of_int msInDay\<rceil> = - (- (a - b) div msInDay)"
    by (rule ceiling_divide_eq_div)
  then show ?thesis
    by (simp add: diffInDays_def)
qed

text \<open>
  C3, as the specification states it, fails: a device that expired an hour ago has a
  negative difference to now, but its days until expiry are 0, not negative.
\<close>

theorem diffInDays_sign_counterexample:
  "sgn (diffInDays (1700000000000 - 3600000) 1700000000000)
     \<noteq> sgn ((1700000000000 - 3600000) - 1700000000000 :: int)"
  unfolding diffInDays_div msInDay_val by simp

text \<open>
  C3, amended. The days until expiry are the ceiling of the difference between expiry
  and now in whole days: \<open>d\<close> is the result exactly when the difference is above
  \<open>d - 1\<close> days and at most \<open>d\<close> days. They are 0 for a device expiring now and
  \<open>-10\<close> for one that expired exactly 10 days ago. They are positive exactly when the
  expiry is after now, 0 exactly when the device expires now or expired less than one
  whole day ago, and negative exactly when it expired one whole day ago or earlier.
\<close>

theorem diffInDays_ceiling:
  "(diffInDays e n = d \<longleftrightarrow> (d - 1) * msInDay < e - n \<and> e - n \<le> d * msInDay)
   \<and> diffInDays n n = 0
   \<and> diffInDays (n - 10 * msInDay) n = - 10
   \<and> (0 < diffInDays e n \<longleftrightarrow> n < e)
   \<and> (diffInDays e n = 0 \<longleftrightarrow> n - msInDay < e \<and> e \<le> n)
   \<and> (diffInDays e n < 0 \<longleftrightarrow> e \<le> n - msInDay)"
  unfolding diffInDays_div msInDay_val by (auto simp: algebra_simps)

theorem diffInDays_ceiling_witness:
  "diffInDays (1700000000000 + 45 * msInDay) 1700000000000 = 45
   \<and> diffInDays (1700000000000 - 3600000) 1700000000000 = 0
   \<and> diffInDays (1700000000000 - 10 * msInDay) 1700000000000 = - 10"
  using diffInDays_ceiling [of "1700000000000 + 45 * msInDay" 1700000000000 45]
    diffInDays_ceiling [of "1700000000000 - 3600000" 1700000000000 0]
  by (simp add: msInDay_val)

section \<open>The loops, as functions of their inputs\<close>

lemma device_step_append:
  "device_step w now c n d csv = csv @ device_step w now c n d []"
  by (simp add: device_step_def Let_def split: option.splits)

lemma device_loop_append:
  "device_loop w now c n ds csv = csv @ concat (map (\<lambda>d. device_step w now c n d []) ds)"
proof (induction ds arbitrary: csv)
  case Nil
  show ?case by simp
next
  case (Cons d ds)
  have "device_loop w now c n (d # ds) csv
          = device_step w now c n d csv @ concat (map (\<lambda>d. device_step w now c n d []) ds)"
    by (simp add: Cons.IH)
  also have "\<dots> = csv @ device_step w now c n d [] @ concat (map (\<lambda>d. device_step w now c n d []) ds)"
    by (subst device_step_append) simp
  finally show ?case by simp
qed

lemma org_loop_lines:
  "fst (org_loop w token now c orgs (csv, tr))
     = csv @ concat (map (\<lambda>org. concat (map (\<lambda>d. device_step w now c (org_name org) d [])
                                       (fetched_devices w token (org_id org)))) orgs)"
proof (induction orgs arbitrary: csv tr)
  case Nil
  show ?case by simp
next
  case (Cons org orgs)
  show ?case
    by (simp add: Let_def fetched_devices_def Cons.IH device_loop_append
             split: prod.splits sum.splits option.splits)
qed

lemma device_rows_cases:
  assumes "sn d = Some s" "s \<noteq> []" "expiry_date d = Some e" "e \<noteq> []" "date_parse w e = Some t"
  shows "device_rows w n d =
      (if t \<le> clock w + 90 * msInDay
       then [csv_row n (normalize_serial s) e (diffInDays t (clock w))
               (if expired d then ''YES'' else ''NO'')]
       else [])"
  using assms by (simp add: device_rows_def device_step_def falsy_def msInDay_def Let_def)

lemma device_rows_skip:
  "falsy (sn d) \<or> falsy (expiry_date d) \<or> date_parse w (the (expiry_date d)) = None
     \<Longrightarrow> device_rows w n d = []"
  by (auto simp add: device_rows_def device_step_def Let_def)

lemma device_rows_expired_flag:
  "(device_rows w n (d\<lparr>expired := b\<rparr>) = []) = (device_rows w n d = [])"
  by (simp add: device_rows_def device_step_def Let_def falsy_def split: option.splits)

section \<open>The effects of a run\<close>

lemma fetches_append: "fetches (xs @ ys) = fetches xs @ fetches ys"
  by (induction xs rule: fetches.induct) auto

lemma mails_append: "mails (xs @ ys) = mails xs @ mails ys"
  by (induction xs rule: mails.induct) auto

lemma org_loop_trace:
  "snd (org_loop w token now c orgs (csv, tr)) = tr @ concat (map (org_events w token) orgs)"
proof (induction orgs arbitrary: csv tr)
  case Nil
  show ?case by simp
next
  case (Cons org orgs)
  show ?case
    by (simp add: Let_def org_events_def Cons.IH split: prod.splits sum.splits option.splits list.splits)
qed

lemma fetch_devicesData_fetches:
  "fetches (snd (fetch_devicesData w token orgId)) = [devices_request token orgId]"
  by (simp add: fetch_devicesData_def Let_def split: sum.splits)

lemma fetch_devicesData_mails: "mails (snd (fetch_devicesData w token orgId)) = []"
  by (simp add: fetch_devicesData_def Let_def split: sum.splits)

lemma org_events_fetches: "fetches (org_events w token org) = [devices_request token (org_id org)]"
  by (simp add: org_events_def fetches_append fetch_devicesData_fetches split: sum.splits option.splits list.splits)

lemma org_events_mails: "mails (org_events w token org) = []"
  by (simp add: org_events_def mails_append fetch_devicesData_mails split: sum.splits option.splits list.splits)

lemma fetches_concat: "fetches (concat xss) = concat (map fetches xss)"
  by (induction xss) (simp_all add: fetches_append)

lemma mails_concat: "mails (concat xss) = concat (map mails xss)"
  by (induction xss) (simp_all add: mails_append)

lemma sendEmailWithCSV_fetches: "fetches (sendEmailWithCSV w csv) = []"
  by (simp add: sendEmailWithCSV_def Let_def split: sum.splits)

lemma getBearerToken_Inr_fetches:
  assumes "getBearerToken w = (Inr token, tr0)"
  shows "tr0 = [Fetch (token_request (the (env w ''PEPLINK_CLIENT_ID''))
                         (the (env w ''PEPLINK_CLIENT_SECRET'')))]"
  using assms by (simp add: getBearerToken_def Let_def split: if_splits sum.splits)

lemma fetch_orgData_fetches:
  "fetches (snd (fetch_orgData w token)) = [orgs_request token]"
  by (simp add: fetch_orgData_def Let_def split: sum.splits)

lemma fetch_orgData_mails:
  "mails (snd (fetch_orgData w token)) = []"
  by (simp add: fetch_orgData_def Let_def split: sum.splits)

lemma lines_of_no_LF: "LF \<notin> set l \<Longrightarrow> lines_of l = [l]"
  by (induction l) auto

lemma lines_of_append:
  "LF \<notin> set l \<Longrightarrow> lines_of (l @ LF # rest) = l # lines_of rest"
  by (induction l) auto

lemma lines_of_join:
  "ls \<noteq> [] \<Longrightarrow> (\<And>l. l \<in> set ls \<Longrightarrow> LF \<notin> set l) \<Longrightarrow> lines_of (join [LF] ls) = ls"
proof (induction ls)
  case Nil
  then show ?case by simp
next
  case (Cons x xs)
  show ?case
  proof (cases xs)
    case Nil
    with Cons.prems show ?thesis by (simp add: lines_of_no_LF)
  next
    case (Cons y ys)
    with Cons.IH Cons.prems have "lines_of (join [LF] xs) = xs" by simp
    moreover have "LF \<notin> set x" using Cons.prems by simp
    ultimately show ?thesis using Cons by (simp add: lines_of_append)
  qed
qed


section \<open>The ways through main\<close>

lemma org_loop_eq:
  "org_loop w token now c orgs (csv, tr)
     = (csv @ concat (map (\<lambda>org. concat (map (\<lambda>d. device_step w now c (org_name org) d [])
                                       (fetched_devices w token (org_id org)))) orgs),
        tr @ concat (map (org_events w token) orgs))"
  by (rule prod_eqI) (simp_all add: org_loop_lines org_loop_trace)

lemma main_run:
  assumes "getBearerToken w = (Inr token, tr0)"
    and "fetch_orgData w token = (Inr od, evs)"
    and "org_data od = Some orgs" and "orgs \<noteq> []"
  shows "main w =
     \<lparr>completion = Returned,
      report = Some (report_lines w token orgs),
      trace = tr0 @ ConsoleLog (''Token retrieved successfully: '' @ token) # evs
        @ ConsoleLog (LF # ''Successfully retrieved '' @ show_nat (length orgs) @ '' organization(s).'')
        # concat (map (org_events w token) orgs)
        @ (if length (report_lines w token orgs) = 1
           then [ConsoleLog (LF # ''No devices found with warranty expiring within 90 days.'')]
           else [ConsoleLog (LF # ''==== CSV Output (Devices expiring in <= 90 days) ===='' ),
                 ConsoleLog (join [LF] (report_lines w token orgs))])
        @ sendEmailWithCSV w (join [LF] (report_lines w token orgs))\<rparr>"
  using assms
  by (simp add: main_def Let_def org_loop_eq report_lines_def org_rows_def [abs_def]
        device_rows_def [abs_def])

lemma main_token_failure:
  assumes "getBearerToken w = (Inl err, tr0)"
  shows "main w = \<lparr>completion = Exited 1, report = None,
                    trace = tr0 @ [ConsoleError ''Error retrieving token:'' (Some err)]\<rparr>"
  using assms by (simp add: main_def)

lemma main_orgs_failure:
  assumes "getBearerToken w = (Inr token, tr0)"
    and "fetch_orgData w token = (Inl err, evs)"
  shows "main w = \<lparr>completion = Exited 1, report = None,
                    trace = tr0 @ ConsoleLog (''Token retrieved successfully: '' @ token) # evs
                      @ [ConsoleError ''Error fetching organizations:'' (Some err)]\<rparr>"
  using assms by (simp add: main_def)

lemma main_no_orgs:
  assumes "getBearerToken w = (Inr token, tr0)"
    and "fetch_orgData w token = (Inr od, evs)"
    and "org_data od = None \<or> org_data od = Some []"
  shows "main w = \<lparr>completion = Returned, report = None,
                    trace = tr0 @ ConsoleLog (''Token retrieved successfully: '' @ token) # evs
                      @ [ConsoleLog (LF # ''No organizations found or insufficient permissions.'')]\<rparr>"
  using assms by (auto simp add: main_def)


section \<open>The example worlds, evaluated\<close>

lemmas example_defs = example_world_def example_env_def token_ok_def orgs_ok_def mail_ok_def
  token_body_def orgs_body_AB_def orgs_body_G_def orgs_body_N_def orgs_body_empty_def
  devices_body_b_def devices_body_g_def device_45_def example_parse_tokenJson_def
  example_parse_orgData_def example_parse_devicesData_def example_date_parse_def example_fetch_def

lemmas code_defs = getBearerToken_def fetch_orgData_def fetch_devicesData_def token_request_def
  orgs_request_def devices_request_def TOKEN_ENDPOINT_def ORG_ENDPOINT_def DEV_ENDPOINT_def
  response_ok_def falsy_def

lemmas row_defs = device_rows_def device_step_def csv_row_def normalize_serial_def is_alnum_def
  less_eq_char_def diffInDays_div msInDay_val show_int_def show_nat.simps falsy_def

lemma example_token:
  "getBearerToken (example_world example_env token_ok orgs_response mail_result)
     = (Inr ''tok-1'', [Fetch (token_request ''client-1'' ''secret-1'')])"
  by (simp add: example_defs code_defs Let_def)

lemma example_orgs:
  "fetch_orgData (example_world environment token_response (orgs_ok body) mail_result) token
     = (case example_parse_orgData body of
          Inl err \<Rightarrow> Inl err
        | Inr orgData \<Rightarrow> Inr orgData,
        [Fetch (orgs_request token),
         ConsoleLog (LF # ''Raw organization response body: '' @ body)])"
  by (simp add: example_defs code_defs Let_def split: sum.splits)

lemma example_devices_a:
  "fetch_devicesData (example_world environment token_response orgs_response mail_result) token ''a''
     = (Inl (Error ''Failed to fetch devices for org a: 500 - Internal Server Error''),
        [Fetch (devices_request token ''a'')])"
  by (simp add: example_defs code_defs Let_def show_nat.simps)

lemma example_devices_b:
  "fetched_devices (example_world environment token_response orgs_response mail_result) token ''b''
     = [device_45]"
  by (simp add: fetched_devices_def example_defs code_defs Let_def)

lemma example_devices_g:
  "fetched_devices (example_world environment token_response orgs_response mail_result) token ''g''
     = [device_45,
        \<lparr>sn = Some ''CD-5678'', expiry_date = Some ''2024-03-13T22:13:20.000Z'', expired = True\<rparr>,
        \<lparr>sn = Some ''- -'', expiry_date = Some ''2024-02-12T22:13:20.000Z'', expired = False\<rparr>,
        \<lparr>sn = Some ''EF-9'', expiry_date = Some ''2023-11-04T22:13:20.000Z'', expired = True\<rparr>,
        \<lparr>sn = None, expiry_date = Some ''2023-12-29T22:13:20.000Z'', expired = False\<rparr>,
        \<lparr>sn = Some ''GH-1'', expiry_date = Some ''soon'', expired = False\<rparr>,
        \<lparr>sn = Some ''IJ-2'', expiry_date = None, expired = False\<rparr>]"
  by (simp add: fetched_devices_def example_defs code_defs Let_def)

lemma example_clock:
  "clock (example_world environment token_response orgs_response mail_result) = 1700000000000"
  "date_parse (example_world environment token_response orgs_response mail_result) = example_date_parse"
  by (simp_all add: example_world_def)

lemma example_rows_g:
  \<open>org_rows (example_world environment token_response orgs_response mail_result) token
      \<lparr>org_id = ''g'', org_name = ''Gamma''\<rparr>
     = [''"Gamma","AB1234","2023-12-29T22:13:20.000Z","45","NO"'',
        ''"Gamma","","2024-02-12T22:13:20.000Z","90","NO"'',
        ''"Gamma","EF9","2023-11-04T22:13:20.000Z","-10","YES"'']\<close>
  by (simp add: org_rows_def example_devices_g example_clock row_defs device_45_def
        example_date_parse_def Let_def)

lemma example_rows_b:
  \<open>org_rows (example_world environment token_response orgs_response mail_result) token
      \<lparr>org_id = ''b'', org_name = n\<rparr>
     = [CHR 0x22 # n @ ''","AB1234","2023-12-29T22:13:20.000Z","45","NO"'']\<close>
  by (simp add: org_rows_def example_devices_b example_clock row_defs device_45_def
        example_date_parse_def Let_def)

lemma example_rows_a:
  "org_rows (example_world environment token_response orgs_response mail_result) token
      \<lparr>org_id = ''a'', org_name = n\<rparr> = []"
  by (simp add: org_rows_def fetched_devices_def example_devices_a)

section \<open>Which devices are reported\<close>

text \<open>
  C1. In a run that gets its token and a non-empty list of organizations, the report is
  the header followed by the rows of the devices, and what a device adds is decided as
  follows. A device with a non-empty serial number and a non-empty expiry date that
  parses adds exactly one row if the date is at or before now plus 90 days, the
  boundary included, and no row otherwise. A device without serial number or without
  expiry date, or whose expiry date does not parse, adds no row. Whether a device adds
  a row does not depend on its \<open>expired\<close> flag.
\<close>

theorem device_reported_iff_within_90_days:
  assumes "getBearerToken w = (Inr token, tr0)"
    and "fetch_orgData w token = (Inr od, evs)"
    and "org_data od = Some orgs" and "orgs \<noteq> []"
  shows "report (main w) = Some (report_lines w token orgs)
    \<and> (\<forall>d n s e t.
          sn d = Some s \<and> s \<noteq> [] \<and> expiry_date d = Some e \<and> e \<noteq> [] \<and> date_parse w e = Some t \<longrightarrow>
          device_rows w n d =
            (if t \<le> clock w + 90 * msInDay
             then [csv_row n (normalize_serial s) e (diffInDays t (clock w))
                     (if expired d then ''YES'' else ''NO'')]
             else []))
    \<and> (\<forall>d n. falsy (sn d) \<or> falsy (expiry_date d)
               \<or> (\<exists>e. expiry_date d = Some e \<and> date_parse w e = None) \<longrightarrow>
          device_rows w n d = [])
    \<and> (\<forall>d n b. (device_rows w n (d\<lparr>expired := b\<rparr>) = []) = (device_rows w n d = []))"
proof (intro conjI allI impI)
  show "report (main w) = Some (report_lines w token orgs)"
    using assms by (simp add: main_run)
next
  fix d :: device and n s e t
  assume "sn d = Some s \<and> s \<noteq> [] \<and> expiry_date d = Some e \<and> e \<noteq> [] \<and> date_parse w e = Some t"
  then show "device_rows w n d =
            (if t \<le> clock w + 90 * msInDay
             then [csv_row n (normalize_serial s) e (diffInDays t (clock w))
                     (if expired d then ''YES'' else ''NO'')]
             else [])"
    by (simp add: device_rows_cases)
next
  fix d :: device and n
  assume "falsy (sn d) \<or> falsy (expiry_date d)
               \<or> (\<exists>e. expiry_date d = Some e \<and> date_parse w e = None)"
  then have "falsy (sn d) \<or> falsy (expiry_date d) \<or> date_parse w (the (expiry_date d)) = None"
    by auto
  then show "device_rows w n d = []"
    by (rule device_rows_skip)
next
  fix d :: device and n b
  show "(device_rows w n (d\<lparr>expired := b\<rparr>) = []) = (device_rows w n d = [])"
    by (rule device_rows_expired_flag)
qed

theorem device_reported_iff_within_90_days_witness:
  \<open>report (main scenario_G)
     = Some [csv_header,
             ''"Gamma","AB1234","2023-12-29T22:13:20.000Z","45","NO"'',
             ''"Gamma","","2024-02-12T22:13:20.000Z","90","NO"'',
             ''"Gamma","EF9","2023-11-04T22:13:20.000Z","-10","YES"'']
   \<and> device_rows scenario_G ''Gamma''
         \<lparr>sn = Some ''AB-12 34'', expiry_date = Some ''2023-12-29T22:13:20.000Z'', expired = False\<rparr>
       = [''"Gamma","AB1234","2023-12-29T22:13:20.000Z","45","NO"'']
   \<and> device_rows scenario_G ''Gamma''
         \<lparr>sn = Some ''CD-5678'', expiry_date = Some ''2024-03-13T22:13:20.000Z'', expired = True\<rparr>
       = []
   \<and> device_rows scenario_G ''Gamma''
         \<lparr>sn = Some ''GH-1'', expiry_date = Some ''soon'', expired = False\<rparr>
       = []\<close>
proof -
  have tok: "getBearerToken scenario_G
               = (Inr ''tok-1'', [Fetch (token_request ''client-1'' ''secret-1'')])"
    unfolding scenario_G_def by (rule example_token)
  have orgs: "fetch_orgData scenario_G ''tok-1''
               = (Inr \<lparr>org_data = Some [\<lparr>org_id = ''g'', org_name = ''Gamma''\<rparr>]\<rparr>,
                  [Fetch (orgs_request ''tok-1''),
                   ConsoleLog (LF # ''Raw organization response body: '' @ orgs_body_G)])"
    unfolding scenario_G_def
    by (simp add: example_orgs example_parse_orgData_def orgs_body_G_def orgs_body_AB_def)
  have list: "org_data \<lparr>org_data = Some [\<lparr>org_id = ''g'', org_name = ''Gamma''\<rparr>]\<rparr>
                = Some [\<lparr>org_id = ''g'', org_name = ''Gamma''\<rparr>]"
    "[\<lparr>org_id = ''g'', org_name = ''Gamma''\<rparr>] \<noteq> []"
    by simp_all
  have world: "clock scenario_G = 1700000000000"
    "date_parse scenario_G ''2023-12-29T22:13:20.000Z'' = Some 1703888000000"
    "date_parse scenario_G ''2024-03-13T22:13:20.000Z'' = Some 1710368000000"
    "date_parse scenario_G ''soon'' = None"
    unfolding scenario_G_def by (simp_all add: example_clock example_date_parse_def)
  note reported = device_reported_iff_within_90_days [OF tok orgs list]
  note within = reported [THEN conjunct2, THEN conjunct1, THEN spec, THEN spec, THEN spec,
      THEN spec, THEN spec, THEN mp]
  note skipped = reported [THEN conjunct2, THEN conjunct2, THEN conjunct1, THEN spec, THEN spec,
      THEN mp]
  have \<open>report (main scenario_G)
     = Some [csv_header,
             ''"Gamma","AB1234","2023-12-29T22:13:20.000Z","45","NO"'',
             ''"Gamma","","2024-02-12T22:13:20.000Z","90","NO"'',
             ''"Gamma","EF9","2023-11-04T22:13:20.000Z","-10","YES"'']\<close>
    using reported [THEN conjunct1]
    unfolding scenario_G_def by (simp add: report_lines_def example_rows_g)
  moreover have \<open>device_rows scenario_G ''Gamma''
         \<lparr>sn = Some ''AB-12 34'', expiry_date = Some ''2023-12-29T22:13:20.000Z'', expired = False\<rparr>
       = [''"Gamma","AB1234","2023-12-29T22:13:20.000Z","45","NO"'']\<close>
    using within [of "\<lparr>sn = Some ''AB-12 34'', expiry_date = Some ''2023-12-29T22:13:20.000Z'',
                        expired = False\<rparr>" "''AB-12 34''" "''2023-12-29T22:13:20.000Z''"
                     1703888000000 "''Gamma''"]
    by (simp add: world msInDay_val csv_row_def normalize_serial_def is_alnum_def less_eq_char_def
          diffInDays_div show_int_def show_nat.simps)
  moreover have "device_rows scenario_G ''Gamma''
         \<lparr>sn = Some ''CD-5678'', expiry_date = Some ''2024-03-13T22:13:20.000Z'', expired = True\<rparr>
       = []"
    using within [of "\<lparr>sn = Some ''CD-5678'', expiry_date = Some ''2024-03-13T22:13:20.000Z'',
                        expired = True\<rparr>" "''CD-5678''" "''2024-03-13T22:13:20.000Z''"
                     1710368000000 "''Gamma''"]
    by (simp add: world msInDay_val)
  moreover have "device_rows scenario_G ''Gamma''
         \<lparr>sn = Some ''GH-1'', expiry_date = Some ''soon'', expired = False\<rparr>
       = []"
    using skipped [of "\<lparr>sn = Some ''GH-1'', expiry_date = Some ''soon'', expired = False\<rparr>"
                     "''Gamma''"]
    by (simp add: world)
  ultimately show ?thesis
    by (intro conjI)
qed

section \<open>Serial numbers without letters or digits\<close>

text \<open>
  C10. A device whose serial number is not empty but holds no letter and no digit passes
  the test for a missing serial number; its normalized serial number is empty. If its
  expiry date qualifies, the device adds a row whose serial number field is the empty
  string, and the report of the run contains that row.
\<close>

theorem punctuation_serial_gives_empty_field:
  assumes "getBearerToken w = (Inr token, tr0)"
    and "fetch_orgData w token = (Inr od, evs)"
    and "org_data od = Some orgs"
    and "org \<in> set orgs" and "d \<in> set (fetched_devices w token (org_id org))"
    and "sn d = Some s" and "s \<noteq> []" and "\<forall>c \<in> set s. c \<notin> set alnum_chars"
    and "expiry_date d = Some e" and "e \<noteq> []" and "date_parse w e = Some t"
    and "t \<le> clock w + 90 * msInDay"
  shows "\<not> falsy (sn d) \<and> normalize_serial s = []
    \<and> device_rows w (org_name org) d
        = [csv_row (org_name org) [] e (diffInDays t (clock w))
             (if expired d then ''YES'' else ''NO'')]
    \<and> (\<exists>ls. report (main w) = Some ls
           \<and> csv_row (org_name org) [] e (diffInDays t (clock w))
                (if expired d then ''YES'' else ''NO'') \<in> set ls)"
proof -
  have empty: "normalize_serial s = []"
    using assms(8) by (simp add: normalize_serial_filter is_alnum_iff)
  have row: "device_rows w (org_name org) d
        = [csv_row (org_name org) [] e (diffInDays t (clock w))
             (if expired d then ''YES'' else ''NO'')]"
    using assms by (simp add: device_rows_cases empty)
  have "orgs \<noteq> []"
    using assms(4) by auto
  with assms have "report (main w) = Some (report_lines w token orgs)"
    by (simp add: main_run)
  moreover have "csv_row (org_name org) [] e (diffInDays t (clock w))
                (if expired d then ''YES'' else ''NO'') \<in> set (report_lines w token orgs)"
    using assms(4,5) row by (fastforce simp add: report_lines_def org_rows_def)
  ultimately show ?thesis
    using assms(6,7) empty row by (simp add: falsy_def)
qed

theorem punctuation_serial_gives_empty_field_witness:
  \<open>\<not> falsy (Some ''- -'') \<and> normalize_serial ''- -'' = []
   \<and> (\<exists>ls. report (main scenario_G) = Some ls
          \<and> ''"Gamma","","2024-02-12T22:13:20.000Z","90","NO"'' \<in> set ls)\<close>
proof -
  have tok: "getBearerToken scenario_G
               = (Inr ''tok-1'', [Fetch (token_request ''client-1'' ''secret-1'')])"
    unfolding scenario_G_def by (rule example_token)
  have orgs: "fetch_orgData scenario_G ''tok-1''
               = (Inr \<lparr>org_data = Some [\<lparr>org_id = ''g'', org_name = ''Gamma''\<rparr>]\<rparr>,
                  [Fetch (orgs_request ''tok-1''),
                   ConsoleLog (LF # ''Raw organization response body: '' @ orgs_body_G)])"
    unfolding scenario_G_def
    by (simp add: example_orgs example_parse_orgData_def orgs_body_G_def orgs_body_AB_def)
  have dev: "\<lparr>sn = Some ''- -'', expiry_date = Some ''2024-02-12T22:13:20.000Z'', expired = False\<rparr>
               \<in> set (fetched_devices scenario_G ''tok-1'' (org_id \<lparr>org_id = ''g'', org_name = ''Gamma''\<rparr>))"
    unfolding scenario_G_def by (simp add: example_devices_g)
  have date: "date_parse scenario_G ''2024-02-12T22:13:20.000Z'' = Some 1707776000000"
    unfolding scenario_G_def by (simp add: example_clock example_date_parse_def)
  have cutoff: "1707776000000 \<le> clock scenario_G + 90 * msInDay"
    unfolding scenario_G_def by (simp add: example_clock msInDay_val)
  have clock: "clock scenario_G = 1700000000000"
    unfolding scenario_G_def by (simp add: example_clock)
  from punctuation_serial_gives_empty_field
         [OF tok orgs, of "[\<lparr>org_id = ''g'', org_name = ''Gamma''\<rparr>]"
            "\<lparr>org_id = ''g'', org_name = ''Gamma''\<rparr>"
            "\<lparr>sn = Some ''- -'', expiry_date = Some ''2024-02-12T22:13:20.000Z'', expired = False\<rparr>"
            "''- -''" "''2024-02-12T22:13:20.000Z''" 1707776000000]
       dev date cutoff
  show ?thesis
    by (simp add: alnum_chars_def clock csv_row_def diffInDays_div msInDay_val show_int_def
          show_nat.simps)
qed


section \<open>Exit codes and effects of a run\<close>

lemma getBearerToken_events:
  "snd (getBearerToken w) = []
   \<or> snd (getBearerToken w)
        = [Fetch (token_request (the (env w ''PEPLINK_CLIENT_ID''))
                    (the (env w ''PEPLINK_CLIENT_SECRET'')))]"
  by (simp add: getBearerToken_def Let_def split: sum.splits)

lemma getBearerToken_mails: "mails (snd (getBearerToken w)) = []"
  using getBearerToken_events [of w] by auto

lemma sendEmailWithCSV_missing:
  assumes "falsy (env w ''SMTP_HOST'') \<or> falsy (env w ''SMTP_PORT'') \<or> falsy (env w ''SMTP_USER'')
           \<or> falsy (env w ''SMTP_PASS'') \<or> falsy (env w ''SMTP_TO'')"
  shows "sendEmailWithCSV w csv
           = [ConsoleError ''Missing SMTP settings in .env. Cannot send email.'' None]"
  using assms by (auto simp add: sendEmailWithCSV_def Let_def)

lemma run_reported:
  assumes "getBearerToken w = (Inr token, tr0)"
    and "fetch_orgData w token = (Inr od, evs)"
    and "org_data od = Some orgs" and "orgs \<noteq> []"
  shows "fst (run w) = 0"
    and "fetches (snd (run w))
           = token_request (the (env w ''PEPLINK_CLIENT_ID'')) (the (env w ''PEPLINK_CLIENT_SECRET''))
             # orgs_request token # map (\<lambda>org. devices_request token (org_id org)) orgs"
    and "mails (snd (run w)) = mails (sendEmailWithCSV w (join [LF] (report_lines w token orgs)))"
    and "\<exists>tr. snd (run w) = tr @ sendEmailWithCSV w (join [LF] (report_lines w token orgs))
              \<and> fetches tr \<noteq> []"
    and "\<forall>org \<in> set orgs. set (org_events w token org) \<subseteq> set (snd (run w))"
proof -
  note m = main_run [OF assms]
  have tr0: "tr0 = [Fetch (token_request (the (env w ''PEPLINK_CLIENT_ID''))
                         (the (env w ''PEPLINK_CLIENT_SECRET'')))]"
    using assms(1) by (rule getBearerToken_Inr_fetches)
  have evs: "fetches evs = [orgs_request token]" "mails evs = []"
    using fetch_orgData_fetches [of w token] fetch_orgData_mails [of w token] assms(2) by simp_all
  show "fst (run w) = 0"
    by (simp add: run_def m)
  show "fetches (snd (run w))
           = token_request (the (env w ''PEPLINK_CLIENT_ID'')) (the (env w ''PEPLINK_CLIENT_SECRET''))
             # orgs_request token # map (\<lambda>org. devices_request token (org_id org)) orgs"
    by (simp add: run_def m tr0 evs fetches_append fetches_concat comp_def org_events_fetches
          sendEmailWithCSV_fetches concat_map_singleton)
  show "\<forall>org \<in> set orgs. set (org_events w token org) \<subseteq> set (snd (run w))"
    by (auto simp add: run_def m)
  show "mails (snd (run w)) = mails (sendEmailWithCSV w (join [LF] (report_lines w token orgs)))"
    by (simp add: run_def m tr0 evs mails_append mails_concat comp_def org_events_mails)
  show "\<exists>tr. snd (run w) = tr @ sendEmailWithCSV w (join [LF] (report_lines w token orgs))
              \<and> fetches tr \<noteq> []"
    by (rule exI [of _ "tr0 @ ConsoleLog (''Token retrieved successfully: '' @ token) # evs
        @ ConsoleLog (LF # ''Successfully retrieved '' @ show_nat (length orgs) @ '' organization(s).'')
        # concat (map (org_events w token) orgs)
        @ (if length (report_lines w token orgs) = 1
           then [ConsoleLog (LF # ''No devices found with warranty expiring within 90 days.'')]
           else [ConsoleLog (LF # ''==== CSV Output (Devices expiring in <= 90 days) ===='' ),
                 ConsoleLog (join [LF] (report_lines w token orgs))])"])
       (simp add: run_def m tr0)
qed

section \<open>A failed device fetch\<close>

lemma fetch_devicesData_not_ok:
  assumes "fetch w (devices_request token orgId) = Inr r" and "\<not> response_ok r"
  shows "fetch_devicesData w token orgId
           = (Inl (Error (''Failed to fetch devices for org '' @ orgId @ '': ''
                            @ show_nat (status r) @ '' - '' @ raw_body r)),
              [Fetch (devices_request token orgId)])"
  using assms by (simp add: fetch_devicesData_def)

text \<open>
  C5. When the request for the devices of one organization is answered with a status
  outside 200 to 299, the error is logged, the organization adds no row, and the run goes
  on: the devices of every organization of the list are requested, in the order of the
  list, the report is made of the rows of the organizations, and the process exits with
  code 0. If the list is the failing organization followed by another one that has a
  single, qualifying device, the report is the header and the row of that device.
\<close>

theorem failed_device_fetch_is_skipped:
  assumes "getBearerToken w = (Inr token, tr0)"
    and "fetch_orgData w token = (Inr od, evs)"
    and "org_data od = Some orgs" and "a \<in> set orgs"
    and "fetch w (devices_request token (org_id a)) = Inr r" and "\<not> response_ok r"
  shows "fst (run w) = 0
    \<and> ConsoleError (''Error fetching devices for org '' @ org_id a @ '':'')
         (Some (Error (''Failed to fetch devices for org '' @ org_id a @ '': ''
                         @ show_nat (status r) @ '' - '' @ raw_body r))) \<in> set (snd (run w))
    \<and> org_rows w token a = []
    \<and> report (main w) = Some (report_lines w token orgs)
    \<and> fetches (snd (run w))
        = token_request (the (env w ''PEPLINK_CLIENT_ID'')) (the (env w ''PEPLINK_CLIENT_SECRET''))
          # orgs_request token # map (\<lambda>org. devices_request token (org_id org)) orgs
    \<and> (\<forall>b d s e t.
          orgs = [a, b] \<and> fetched_devices w token (org_id b) = [d]
          \<and> sn d = Some s \<and> s \<noteq> [] \<and> expiry_date d = Some e \<and> e \<noteq> []
          \<and> date_parse w e = Some t \<and> t \<le> clock w + 90 * msInDay \<longrightarrow>
          report (main w)
            = Some [csv_header,
                    csv_row (org_name b) (normalize_serial s) e (diffInDays t (clock w))
                      (if expired d then ''YES'' else ''NO'')])"
proof -
  have ne: "orgs \<noteq> []"
    using assms(4) by auto
  note run = run_reported [OF assms(1-3) ne]
  have failed: "fetch_devicesData w token (org_id a)
           = (Inl (Error (''Failed to fetch devices for org '' @ org_id a @ '': ''
                            @ show_nat (status r) @ '' - '' @ raw_body r)),
              [Fetch (devices_request token (org_id a))])"
    using assms(5,6) by (rule fetch_devicesData_not_ok)
  have logged: "ConsoleError (''Error fetching devices for org '' @ org_id a @ '':'')
         (Some (Error (''Failed to fetch devices for org '' @ org_id a @ '': ''
                         @ show_nat (status r) @ '' - '' @ raw_body r))) \<in> set (org_events w token a)"
    by (simp add: org_events_def failed)
  have no_rows: "org_rows w token a = []"
    by (simp add: org_rows_def fetched_devices_def failed)
  have rep: "report (main w) = Some (report_lines w token orgs)"
    using assms(1-3) ne by (simp add: main_run)
  have two: "report (main w)
            = Some [csv_header,
                    csv_row (org_name b) (normalize_serial s) e (diffInDays t (clock w))
                      (if expired d then ''YES'' else ''NO'')]"
    if "orgs = [a, b] \<and> fetched_devices w token (org_id b) = [d]
          \<and> sn d = Some s \<and> s \<noteq> [] \<and> expiry_date d = Some e \<and> e \<noteq> []
          \<and> date_parse w e = Some t \<and> t \<le> clock w + 90 * msInDay" for b d s e t
    using that rep no_rows by (simp add: report_lines_def org_rows_def device_rows_cases)
  have "set (org_events w token a) \<subseteq> set (snd (run w))"
    using run(5) assms(4) by blast
  with run(1) logged no_rows rep run(2) two show ?thesis
    by blast
qed

theorem failed_device_fetch_is_skipped_witness:
  \<open>fst (run scenario_D) = 0
   \<and> ConsoleError ''Error fetching devices for org a:''
        (Some (Error ''Failed to fetch devices for org a: 500 - Internal Server Error''))
        \<in> set (snd (run scenario_D))
   \<and> report (main scenario_D)
       = Some [csv_header, ''"Beta","AB1234","2023-12-29T22:13:20.000Z","45","NO"'']
   \<and> fetches (snd (run scenario_D))
       = [token_request ''client-1'' ''secret-1'', orgs_request ''tok-1'',
          devices_request ''tok-1'' ''a'', devices_request ''tok-1'' ''b'']\<close>
proof -
  have tok: "getBearerToken scenario_D
               = (Inr ''tok-1'', [Fetch (token_request ''client-1'' ''secret-1'')])"
    unfolding scenario_D_def by (rule example_token)
  have orgs: "fetch_orgData scenario_D ''tok-1''
               = (Inr \<lparr>org_data = Some [\<lparr>org_id = ''a'', org_name = ''Alpha''\<rparr>,
                                        \<lparr>org_id = ''b'', org_name = ''Beta''\<rparr>]\<rparr>,
                  [Fetch (orgs_request ''tok-1''),
                   ConsoleLog (LF # ''Raw organization response body: '' @ orgs_body_AB)])"
    unfolding scenario_D_def
    by (simp add: example_orgs example_parse_orgData_def)
  have resp: "fetch scenario_D (devices_request ''tok-1'' (org_id \<lparr>org_id = ''a'', org_name = ''Alpha''\<rparr>))
                = Inr \<lparr>status = 500, raw_body = ''Internal Server Error''\<rparr>"
    unfolding scenario_D_def by (simp add: example_defs code_defs)
  have bad: "\<not> response_ok \<lparr>status = 500, raw_body = ''Internal Server Error''\<rparr>"
    by (simp add: response_ok_def)
  have env: "env scenario_D ''PEPLINK_CLIENT_ID'' = Some ''client-1''"
    "env scenario_D ''PEPLINK_CLIENT_SECRET'' = Some ''secret-1''"
    unfolding scenario_D_def by (simp_all add: example_world_def example_env_def)
  have devs: "fetched_devices scenario_D ''tok-1'' (org_id \<lparr>org_id = ''b'', org_name = ''Beta''\<rparr>) = [device_45]"
    unfolding scenario_D_def by (simp add: example_devices_b)
  have date: "date_parse scenario_D ''2023-12-29T22:13:20.000Z'' = Some 1703888000000"
    "clock scenario_D = 1700000000000"
    unfolding scenario_D_def by (simp_all add: example_clock example_date_parse_def)
  have list: "org_data \<lparr>org_data = Some [\<lparr>org_id = ''a'', org_name = ''Alpha''\<rparr>,
                                        \<lparr>org_id = ''b'', org_name = ''Beta''\<rparr>]\<rparr>
                 = Some [\<lparr>org_id = ''a'', org_name = ''Alpha''\<rparr>, \<lparr>org_id = ''b'', org_name = ''Beta''\<rparr>]"
    "\<lparr>org_id = ''a'', org_name = ''Alpha''\<rparr>
       \<in> set [\<lparr>org_id = ''a'', org_name = ''Alpha''\<rparr>, \<lparr>org_id = ''b'', org_name = ''Beta''\<rparr>]"
    by simp_all
  note skipped = failed_device_fetch_is_skipped [OF tok orgs list resp bad]
  note exit = skipped [THEN conjunct1]
  note logged = skipped [THEN conjunct2, THEN conjunct1]
  note requests = skipped [THEN conjunct2, THEN conjunct2, THEN conjunct2, THEN conjunct2, THEN conjunct1]
  note two = skipped [THEN conjunct2, THEN conjunct2, THEN conjunct2, THEN conjunct2,
      THEN conjunct2, rule_format,
      of "\<lparr>org_id = ''b'', org_name = ''Beta''\<rparr>" device_45 "''AB-12 34''"
         "''2023-12-29T22:13:20.000Z''" 1703888000000]
  have "report (main scenario_D)
          = Some [csv_header,
                  csv_row ''Beta'' (normalize_serial ''AB-12 34'') ''2023-12-29T22:13:20.000Z''
                    (diffInDays 1703888000000 1700000000000) ''NO'']"
    using two devs date by (simp add: device_45_def msInDay_val)
  with exit logged requests show ?thesis
    by (simp add: env csv_row_def normalize_serial_def is_alnum_def
          less_eq_char_def diffInDays_div msInDay_val show_int_def show_nat.simps)
qed


section \<open>No organizations\<close>

text \<open>
  C2, as the specification states it, fails. In scenario A the endpoint returns an empty
  list of organizations and the mail settings are complete: the run logs that it found
  no organization and returns. It builds no report and hands nothing to the mail
  transport; its exit code is 0.
\<close>

theorem no_organizations_counterexample:
  \<open>run scenario_A
     = (0, [Fetch (token_request ''client-1'' ''secret-1''),
            ConsoleLog ''Token retrieved successfully: tok-1'',
            Fetch (orgs_request ''tok-1''),
            ConsoleLog (LF # ''Raw organization response body: {"data":[]}''),
            ConsoleLog (LF # ''No organizations found or insufficient permissions.'')])
   \<and> report (main scenario_A) = None
   \<and> mails (snd (run scenario_A)) = []\<close>
proof -
  have tok: "getBearerToken scenario_A
               = (Inr ''tok-1'', [Fetch (token_request ''client-1'' ''secret-1'')])"
    unfolding scenario_A_def by (rule example_token)
  have orgs: "fetch_orgData scenario_A ''tok-1''
               = (Inr \<lparr>org_data = Some []\<rparr>,
                  [Fetch (orgs_request ''tok-1''),
                   ConsoleLog (LF # ''Raw organization response body: '' @ orgs_body_empty)])"
    unfolding scenario_A_def
    by (simp add: example_orgs example_parse_orgData_def orgs_body_AB_def orgs_body_G_def
          orgs_body_N_def orgs_body_empty_def)
  have "main scenario_A
          = \<lparr>completion = Returned, report = None,
             trace = [Fetch (token_request ''client-1'' ''secret-1'')]
               @ ConsoleLog (''Token retrieved successfully: '' @ ''tok-1'')
               # [Fetch (orgs_request ''tok-1''),
                  ConsoleLog (LF # ''Raw organization response body: '' @ orgs_body_empty)]
               @ [ConsoleLog (LF # ''No organizations found or insufficient permissions.'')]\<rparr>"
    using tok orgs by (rule main_no_orgs) simp
  then show ?thesis
    by (simp add: run_def orgs_body_empty_def)
qed

text \<open>
  C2, amended. When the organizations are fetched and the list is empty or missing, the
  run logs that no organization was found and returns: it requests no devices, builds no
  report and sends no mail, and the process exits with code 0.
\<close>

theorem no_organizations_no_report:
  assumes "getBearerToken w = (Inr token, tr0)"
    and "fetch_orgData w token = (Inr od, evs)"
    and "org_data od = None \<or> org_data od = Some []"
  shows "run w = (0, tr0 @ ConsoleLog (''Token retrieved successfully: '' @ token) # evs
                    @ [ConsoleLog (LF # ''No organizations found or insufficient permissions.'')])
    \<and> report (main w) = None
    \<and> mails (snd (run w)) = []
    \<and> fetches (snd (run w))
        = [token_request (the (env w ''PEPLINK_CLIENT_ID'')) (the (env w ''PEPLINK_CLIENT_SECRET'')),
           orgs_request token]"
proof -
  note m = main_no_orgs [OF assms]
  have tr0: "tr0 = [Fetch (token_request (the (env w ''PEPLINK_CLIENT_ID''))
                         (the (env w ''PEPLINK_CLIENT_SECRET'')))]"
    using assms(1) by (rule getBearerToken_Inr_fetches)
  have evs: "fetches evs = [orgs_request token]" "mails evs = []"
    using fetch_orgData_fetches [of w token] fetch_orgData_mails [of w token] assms(2) by simp_all
  show ?thesis
    by (simp add: run_def m tr0 evs fetches_append mails_append)
qed

theorem no_organizations_no_report_witness:
  "fst (run scenario_A) = 0 \<and> report (main scenario_A) = None
   \<and> mails (snd (run scenario_A)) = []
   \<and> fetches (snd (run scenario_A))
       = [token_request ''client-1'' ''secret-1'', orgs_request ''tok-1'']"
proof -
  have tok: "getBearerToken scenario_A
               = (Inr ''tok-1'', [Fetch (token_request ''client-1'' ''secret-1'')])"
    unfolding scenario_A_def by (rule example_token)
  have orgs: "fetch_orgData scenario_A ''tok-1''
               = (Inr \<lparr>org_data = Some []\<rparr>,
                  [Fetch (orgs_request ''tok-1''),
                   ConsoleLog (LF # ''Raw organization response body: '' @ orgs_body_empty)])"
    unfolding scenario_A_def
    by (simp add: example_orgs example_parse_orgData_def orgs_body_AB_def orgs_body_G_def
          orgs_body_N_def orgs_body_empty_def)
  have empty: "org_data \<lparr>org_data = Some []\<rparr> = None \<or> org_data \<lparr>org_data = Some []\<rparr> = Some []"
    by simp
  have env: "env scenario_A ''PEPLINK_CLIENT_ID'' = Some ''client-1''"
    "env scenario_A ''PEPLINK_CLIENT_SECRET'' = Some ''secret-1''"
    unfolding scenario_A_def by (simp_all add: example_world_def example_env_def)
  from no_organizations_no_report [OF tok orgs empty] show ?thesis
    by (simp add: env)
qed

section \<open>The token\<close>

text \<open>
  C6. With both credentials set and an answer from the token endpoint, the function
  returns a token exactly when the answer has a status from 200 to 299 and its body
  parses to an object whose \<open>access_token\<close> is that non-empty string. Otherwise it
  throws one of three errors: the status and the raw body for a status outside 200 to 299,
  a parse error for a body that does not parse, and a missing token for a body without
  \<open>access_token\<close>; the three are different from each other. Whenever the function
  throws, for these or any other reason, the run logs the error and exits with code 1,
  and it has made no request but, at most, the one for the token.
\<close>

theorem token_acquisition:
  "(\<not> falsy (env w ''PEPLINK_CLIENT_ID'') \<and> \<not> falsy (env w ''PEPLINK_CLIENT_SECRET'')
      \<and> fetch w (token_request (the (env w ''PEPLINK_CLIENT_ID''))
                    (the (env w ''PEPLINK_CLIENT_SECRET''))) = Inr r \<longrightarrow>
      (fst (getBearerToken w) = Inr tok \<longleftrightarrow>
         response_ok r
         \<and> (\<exists>j. parse_tokenJson w (raw_body r) = Inr j \<and> access_token j = Some tok \<and> tok \<noteq> []))
      \<and> (\<not> response_ok r \<longrightarrow>
            fst (getBearerToken w)
              = Inl (Error (''Failed to get token: '' @ show_nat (status r) @ '' - '' @ raw_body r)))
      \<and> (\<forall>err. response_ok r \<and> parse_tokenJson w (raw_body r) = Inl err \<longrightarrow>
            fst (getBearerToken w)
              = Inl (Error (''Failed to parse token JSON: '' @ error_to_string err)))
      \<and> (\<forall>j. response_ok r \<and> parse_tokenJson w (raw_body r) = Inr j \<and> falsy (access_token j) \<longrightarrow>
            fst (getBearerToken w) = Inl (Error ''No access_token in token response'')))
   \<and> (\<forall>x y. Error (''Failed to get token: '' @ x) \<noteq> Error (''Failed to parse token JSON: '' @ y)
         \<and> Error (''Failed to get token: '' @ x) \<noteq> Error ''No access_token in token response''
         \<and> Error (''Failed to parse token JSON: '' @ y) \<noteq> Error ''No access_token in token response'')
   \<and> (\<forall>err. fst (getBearerToken w) = Inl err \<longrightarrow>
         run w = (1, snd (getBearerToken w) @ [ConsoleError ''Error retrieving token:'' (Some err)])
         \<and> (fetches (snd (run w)) = []
              \<or> fetches (snd (run w))
                  = [token_request (the (env w ''PEPLINK_CLIENT_ID''))
                       (the (env w ''PEPLINK_CLIENT_SECRET''))]))"
proof (intro conjI allI impI)
  assume a: "\<not> falsy (env w ''PEPLINK_CLIENT_ID'') \<and> \<not> falsy (env w ''PEPLINK_CLIENT_SECRET'')
      \<and> fetch w (token_request (the (env w ''PEPLINK_CLIENT_ID''))
                    (the (env w ''PEPLINK_CLIENT_SECRET''))) = Inr r"
  then show "fst (getBearerToken w) = Inr tok \<longleftrightarrow>
            response_ok r
            \<and> (\<exists>j. parse_tokenJson w (raw_body r) = Inr j \<and> access_token j = Some tok \<and> tok \<noteq> [])"
    by (auto simp add: getBearerToken_def Let_def falsy_def split: sum.splits option.splits)
  {
    assume "\<not> response_ok r"
    with a show "fst (getBearerToken w)
              = Inl (Error (''Failed to get token: '' @ show_nat (status r) @ '' - '' @ raw_body r))"
      by (simp add: getBearerToken_def Let_def)
  }
  {
    fix err
    assume "response_ok r \<and> parse_tokenJson w (raw_body r) = Inl err"
    with a show "fst (getBearerToken w)
              = Inl (Error (''Failed to parse token JSON: '' @ error_to_string err))"
      by (simp add: getBearerToken_def Let_def)
  }
  {
    fix j
    assume "response_ok r \<and> parse_tokenJson w (raw_body r) = Inr j \<and> falsy (access_token j)"
    with a show "fst (getBearerToken w) = Inl (Error ''No access_token in token response'')"
      by (simp add: getBearerToken_def Let_def)
  }
next
  fix x y
  show "Error (''Failed to get token: '' @ x) \<noteq> Error (''Failed to parse token JSON: '' @ y)"
    by simp
  show "Error (''Failed to get token: '' @ x) \<noteq> Error ''No access_token in token response''"
    by simp
  show "Error (''Failed to parse token JSON: '' @ y) \<noteq> Error ''No access_token in token response''"
    by simp
next
  fix err
  assume failed: "fst (getBearerToken w) = Inl err"
  then have "getBearerToken w = (Inl err, snd (getBearerToken w))"
    by (simp add: prod_eq_iff)
  then have "main w = \<lparr>completion = Exited 1, report = None,
                    trace = snd (getBearerToken w)
                      @ [ConsoleError ''Error retrieving token:'' (Some err)]\<rparr>"
    by (rule main_token_failure)
  then show run: "run w = (1, snd (getBearerToken w)
                            @ [ConsoleError ''Error retrieving token:'' (Some err)])"
    by (simp add: run_def)
  show "fetches (snd (run w)) = []
          \<or> fetches (snd (run w))
              = [token_request (the (env w ''PEPLINK_CLIENT_ID''))
                   (the (env w ''PEPLINK_CLIENT_SECRET''))]"
    using getBearerToken_events [of w] by (auto simp add: run fetches_append)
qed

theorem token_acquisition_witness:
  \<open>fst (getBearerToken scenario_E)
     = Inl (Error ''Failed to get token: 401 - {"error":"invalid_client"}'')
   \<and> run scenario_E
       = (1, [Fetch (token_request ''client-1'' ''secret-1''),
              ConsoleError ''Error retrieving token:''
                (Some (Error ''Failed to get token: 401 - {"error":"invalid_client"}''))])
   \<and> fst (getBearerToken scenario_D) = Inr ''tok-1''\<close>
proof -
  have env: "env scenario_E ''PEPLINK_CLIENT_ID'' = Some ''client-1''"
    "env scenario_E ''PEPLINK_CLIENT_SECRET'' = Some ''secret-1''"
    "env scenario_D ''PEPLINK_CLIENT_ID'' = Some ''client-1''"
    "env scenario_D ''PEPLINK_CLIENT_SECRET'' = Some ''secret-1''"
    unfolding scenario_E_def scenario_D_def by (simp_all add: example_world_def example_env_def)
  have answer_E: \<open>\<not> falsy (env scenario_E ''PEPLINK_CLIENT_ID'')
      \<and> \<not> falsy (env scenario_E ''PEPLINK_CLIENT_SECRET'')
      \<and> fetch scenario_E (token_request (the (env scenario_E ''PEPLINK_CLIENT_ID''))
                    (the (env scenario_E ''PEPLINK_CLIENT_SECRET'')))
                  = Inr \<lparr>status = 401, raw_body = ''{"error":"invalid_client"}''\<rparr>\<close>
    unfolding scenario_E_def by (simp add: example_defs code_defs)
  have answer_D: "\<not> falsy (env scenario_D ''PEPLINK_CLIENT_ID'')
      \<and> \<not> falsy (env scenario_D ''PEPLINK_CLIENT_SECRET'')
      \<and> fetch scenario_D (token_request (the (env scenario_D ''PEPLINK_CLIENT_ID''))
                    (the (env scenario_D ''PEPLINK_CLIENT_SECRET''))) = Inr token_ok"
    unfolding scenario_D_def by (simp add: example_defs code_defs)
  note E = token_acquisition [of scenario_E, THEN conjunct1, THEN mp, OF answer_E]
  note E_run = token_acquisition [of scenario_E, THEN conjunct2, THEN conjunct2, THEN spec, THEN mp]
  note D = token_acquisition [of scenario_D _ "''tok-1''", THEN conjunct1, THEN mp, OF answer_D,
      THEN conjunct1]
  have not_ok: \<open>\<not> response_ok \<lparr>status = 401, raw_body = ''{"error":"invalid_client"}''\<rparr>\<close>
    by (simp add: response_ok_def)
  have thrown: \<open>fst (getBearerToken scenario_E)
     = Inl (Error ''Failed to get token: 401 - {"error":"invalid_client"}'')\<close>
    using E [THEN conjunct2, THEN conjunct1] not_ok by (simp add: show_nat.simps)
  have events: "snd (getBearerToken scenario_E) = [Fetch (token_request ''client-1'' ''secret-1'')]"
    unfolding scenario_E_def by (simp add: example_defs code_defs Let_def)
  have exited: \<open>run scenario_E
       = (1, [Fetch (token_request ''client-1'' ''secret-1''),
              ConsoleError ''Error retrieving token:''
                (Some (Error ''Failed to get token: 401 - {"error":"invalid_client"}''))])\<close>
    using E_run [OF thrown] by (simp add: events)
  have "fst (getBearerToken scenario_D) = Inr ''tok-1''"
    using D by (simp add: token_ok_def response_ok_def example_world_def scenario_D_def
        example_parse_tokenJson_def token_body_def)
  with thrown exited show ?thesis
    by simp
qed


section \<open>What decides the exit code and the report\<close>

lemma run_exit_code:
  "fst (run w)
     = (case fst (getBearerToken w) of
          Inl err \<Rightarrow> 1
        | Inr token \<Rightarrow> (case fst (fetch_orgData w token) of Inl err \<Rightarrow> 1 | Inr od \<Rightarrow> 0))"
  by (simp add: run_def main_def Let_def split: prod.splits sum.splits)

lemma report_main:
  "report (main w)
     = (case fst (getBearerToken w) of
          Inl err \<Rightarrow> None
        | Inr token \<Rightarrow>
            (case fst (fetch_orgData w token) of
               Inl err \<Rightarrow> None
             | Inr od \<Rightarrow>
                 (case org_data od of
                    None \<Rightarrow> None
                  | Some orgs \<Rightarrow> if orgs = [] then None else Some (report_lines w token orgs))))"
proof (cases "getBearerToken w")
  case (Pair res tr0)
  show ?thesis
  proof (cases res)
    case (Inl err)
    with Pair show ?thesis by (simp add: main_token_failure)
  next
    case (Inr token)
    note tok = Pair [unfolded Inr]
    show ?thesis
    proof (cases "fetch_orgData w token")
      case orgs: (Pair res' evs)
      show ?thesis
      proof (cases res')
        case (Inl err)
        with tok orgs show ?thesis by (simp add: main_orgs_failure)
      next
        case (Inr od)
        note fetched = orgs [unfolded Inr]
        show ?thesis
        proof (cases "org_data od = None \<or> org_data od = Some []")
          case True
          with tok fetched show ?thesis by (auto simp add: main_no_orgs)
        next
          case False
          then obtain orgs where "org_data od = Some orgs" "orgs \<noteq> []"
            by auto
          with tok fetched show ?thesis by (simp add: main_run)
        qed
      qed
    qed
  qed
qed

lemma report_SomeE:
  assumes "report (main w) = Some ls"
  obtains token tr0 od evs orgs where "getBearerToken w = (Inr token, tr0)"
    and "fetch_orgData w token = (Inr od, evs)" and "org_data od = Some orgs"
    and "orgs \<noteq> []" and "ls = report_lines w token orgs"
proof -
  from assms obtain token od orgs where "fst (getBearerToken w) = Inr token"
    "fst (fetch_orgData w token) = Inr od" "org_data od = Some orgs" "orgs \<noteq> []"
    "ls = report_lines w token orgs"
    by (auto simp add: report_main split: sum.splits option.splits if_splits)
  then show thesis
    using that [of token "snd (getBearerToken w)" od "snd (fetch_orgData w token)" orgs]
    by (simp add: prod_eq_iff)
qed

lemma run_mails:
  "mails (snd (run w))
     = (case report (main w) of
          None \<Rightarrow> []
        | Some ls \<Rightarrow> mails (sendEmailWithCSV w (join [LF] ls)))"
proof (cases "getBearerToken w")
  case (Pair res tr0)
  have tr0: "mails tr0 = []"
    using getBearerToken_mails [of w] Pair by simp
  show ?thesis
  proof (cases res)
    case (Inl err)
    with Pair tr0 show ?thesis by (simp add: run_def main_token_failure mails_append)
  next
    case (Inr token)
    note tok = Pair [unfolded Inr]
    show ?thesis
    proof (cases "fetch_orgData w token")
      case orgs: (Pair res' evs)
      have evs: "mails evs = []"
        using fetch_orgData_mails [of w token] orgs by simp
      show ?thesis
      proof (cases res')
        case (Inl err)
        with tok orgs tr0 evs show ?thesis
          by (simp add: run_def main_orgs_failure mails_append)
      next
        case (Inr od)
        note fetched = orgs [unfolded Inr]
        show ?thesis
        proof (cases "org_data od = None \<or> org_data od = Some []")
          case True
          with tok fetched tr0 evs show ?thesis
            by (simp add: run_def main_no_orgs mails_append)
        next
          case False
          then obtain orgs where o: "org_data od = Some orgs" "orgs \<noteq> []"
            by auto
          from run_reported(3) [OF tok fetched o] main_run [OF tok fetched o]
          show ?thesis by simp
        qed
      qed
    qed
  qed
qed

lemma sendMail_irrelevant_fetch:
  "fetch_devicesData (w\<lparr>sendMail := sm\<rparr>) token orgId = fetch_devicesData w token orgId"
  by (simp add: fetch_devicesData_def Let_def split: sum.splits)

lemma sendMail_irrelevant_devices:
  "fetched_devices (w\<lparr>sendMail := sm\<rparr>) token orgId = fetched_devices w token orgId"
  "device_rows (w\<lparr>sendMail := sm\<rparr>) n = device_rows w n"
  by (simp_all add: fetched_devices_def sendMail_irrelevant_fetch device_rows_def fun_eq_iff
        device_step_def Let_def split: option.splits)

lemma sendMail_irrelevant_rows:
  "org_rows (w\<lparr>sendMail := sm\<rparr>) token = org_rows w token"
  by (simp add: org_rows_def fun_eq_iff sendMail_irrelevant_devices)

lemma sendMail_irrelevant:
  "getBearerToken (w\<lparr>sendMail := sm\<rparr>) = getBearerToken w"
  "fetch_orgData (w\<lparr>sendMail := sm\<rparr>) token = fetch_orgData w token"
  "report_lines (w\<lparr>sendMail := sm\<rparr>) token orgs = report_lines w token orgs"
  by (simp_all add: getBearerToken_def fetch_orgData_def report_lines_def
        sendMail_irrelevant_rows Let_def split: sum.splits)

section \<open>Missing settings\<close>

lemma example_token_env:
  assumes "environment ''PEPLINK_CLIENT_ID'' = Some ''client-1''"
    and "environment ''PEPLINK_CLIENT_SECRET'' = Some ''secret-1''"
  shows "getBearerToken (example_world environment token_ok orgs_response mail_result)
     = (Inr ''tok-1'', [Fetch (token_request ''client-1'' ''secret-1'')])"
  using assms
  by (simp add: example_world_def token_ok_def token_body_def example_parse_tokenJson_def
        example_fetch_def code_defs Let_def)

lemma example_orgs_AB:
  "fetch_orgData (example_world environment token_response (orgs_ok orgs_body_AB) mail_result) token
     = (Inr \<lparr>org_data = Some [\<lparr>org_id = ''a'', org_name = ''Alpha''\<rparr>,
                              \<lparr>org_id = ''b'', org_name = ''Beta''\<rparr>]\<rparr>,
        [Fetch (orgs_request token),
         ConsoleLog (LF # ''Raw organization response body: '' @ orgs_body_AB)])"
  by (simp add: example_orgs example_parse_orgData_def)

text \<open>
  C4, as the specification states it, fails. Without \<^verbatim>\<open>SMTP_HOST\<close> and with everything
  else in place, the run requests the token, the organizations and the devices, then
  logs that the mail settings are missing, and exits with code 0.
\<close>

theorem missing_smtp_host_counterexample:
  "falsy (env scenario_no_smtp_host ''SMTP_HOST'')
   \<and> fst (run scenario_no_smtp_host) = 0
   \<and> fetches (snd (run scenario_no_smtp_host))
       = [token_request ''client-1'' ''secret-1'', orgs_request ''tok-1'',
          devices_request ''tok-1'' ''a'', devices_request ''tok-1'' ''b'']
   \<and> last (snd (run scenario_no_smtp_host))
       = ConsoleError ''Missing SMTP settings in .env. Cannot send email.'' None"
proof -
  have env: "env scenario_no_smtp_host ''PEPLINK_CLIENT_ID'' = Some ''client-1''"
    "env scenario_no_smtp_host ''PEPLINK_CLIENT_SECRET'' = Some ''secret-1''"
    "env scenario_no_smtp_host ''SMTP_HOST'' = None"
    unfolding scenario_no_smtp_host_def by (simp_all add: example_world_def example_env_def)
  have tok: "getBearerToken scenario_no_smtp_host
               = (Inr ''tok-1'', [Fetch (token_request ''client-1'' ''secret-1'')])"
    unfolding scenario_no_smtp_host_def
    by (rule example_token_env) (simp_all add: example_env_def)
  have orgs: "fetch_orgData scenario_no_smtp_host ''tok-1''
     = (Inr \<lparr>org_data = Some [\<lparr>org_id = ''a'', org_name = ''Alpha''\<rparr>,
                              \<lparr>org_id = ''b'', org_name = ''Beta''\<rparr>]\<rparr>,
        [Fetch (orgs_request ''tok-1''),
         ConsoleLog (LF # ''Raw organization response body: '' @ orgs_body_AB)])"
    unfolding scenario_no_smtp_host_def by (rule example_orgs_AB)
  note r = run_reported [OF tok orgs, of "[\<lparr>org_id = ''a'', org_name = ''Alpha''\<rparr>,
                              \<lparr>org_id = ''b'', org_name = ''Beta''\<rparr>]"]
  have send: "sendEmailWithCSV scenario_no_smtp_host csv
                = [ConsoleError ''Missing SMTP settings in .env. Cannot send email.'' None]" for csv
    by (rule sendEmailWithCSV_missing) (simp add: env falsy_def)
  have "fst (run scenario_no_smtp_host) = 0"
    using r(1) by simp
  moreover have "fetches (snd (run scenario_no_smtp_host))
       = [token_request ''client-1'' ''secret-1'', orgs_request ''tok-1'',
          devices_request ''tok-1'' ''a'', devices_request ''tok-1'' ''b'']"
    using r(2) by (simp add: env)
  moreover have "last (snd (run scenario_no_smtp_host))
       = ConsoleError ''Missing SMTP settings in .env. Cannot send email.'' None"
    using r(4) by (auto simp add: send)
  ultimately show ?thesis
    by (simp add: env falsy_def)
qed

text \<open>
  C4, amended. If \<^verbatim>\<open>PEPLINK_CLIENT_ID\<close> or \<^verbatim>\<open>PEPLINK_CLIENT_SECRET\<close> is absent or
  empty, the run makes no request: it logs one error, whose message names both keys, and
  exits with code 1. If one of \<^verbatim>\<open>SMTP_HOST\<close>, \<^verbatim>\<open>SMTP_PORT\<close>, \<^verbatim>\<open>SMTP_USER\<close>,
  \<^verbatim>\<open>SMTP_PASS\<close>, \<^verbatim>\<open>SMTP_TO\<close> is absent or empty, nothing fails: no mail is handed to
  the transport, and a run that has built its report has made its requests before, logs
  the missing settings as its last effect and exits with code 0. The exit code is decided
  by the token and the organizations fetch alone.
\<close>

theorem missing_settings:
  "(falsy (env w ''PEPLINK_CLIENT_ID'') \<or> falsy (env w ''PEPLINK_CLIENT_SECRET'') \<longrightarrow>
      run w = (1, [ConsoleError ''Error retrieving token:''
                     (Some (Error ''Missing PEPLINK_CLIENT_ID or PEPLINK_CLIENT_SECRET in .env''))]))
   \<and> (smtp_missing w \<longrightarrow>
        mails (snd (run w)) = []
        \<and> (\<forall>ls. report (main w) = Some ls \<longrightarrow>
              fst (run w) = 0
              \<and> (\<exists>tr. snd (run w)
                         = tr @ [ConsoleError ''Missing SMTP settings in .env. Cannot send email.'' None]
                       \<and> fetches tr \<noteq> [])))
   \<and> fst (run w)
       = (case fst (getBearerToken w) of
            Inl err \<Rightarrow> 1
          | Inr token \<Rightarrow> (case fst (fetch_orgData w token) of Inl err \<Rightarrow> 1 | Inr od \<Rightarrow> 0))"
proof (intro conjI impI allI)
  assume "falsy (env w ''PEPLINK_CLIENT_ID'') \<or> falsy (env w ''PEPLINK_CLIENT_SECRET'')"
  then have "getBearerToken w
               = (Inl (Error ''Missing PEPLINK_CLIENT_ID or PEPLINK_CLIENT_SECRET in .env''), [])"
    by (auto simp add: getBearerToken_def Let_def)
  then show "run w = (1, [ConsoleError ''Error retrieving token:''
                     (Some (Error ''Missing PEPLINK_CLIENT_ID or PEPLINK_CLIENT_SECRET in .env''))])"
    by (simp add: run_def main_token_failure)
next
  assume missing: "smtp_missing w"
  then have send: "sendEmailWithCSV w csv
      = [ConsoleError ''Missing SMTP settings in .env. Cannot send email.'' None]" for csv
    unfolding smtp_missing_def by (rule sendEmailWithCSV_missing)
  show "mails (snd (run w)) = []"
    by (simp add: run_mails send split: option.splits)
  fix ls
  assume "report (main w) = Some ls"
  then obtain token tr0 od evs orgs where run: "getBearerToken w = (Inr token, tr0)"
    "fetch_orgData w token = (Inr od, evs)" "org_data od = Some orgs" "orgs \<noteq> []"
    by (rule report_SomeE)
  show "fst (run w) = 0"
    using run by (rule run_reported(1))
  show "\<exists>tr. snd (run w)
                = tr @ [ConsoleError ''Missing SMTP settings in .env. Cannot send email.'' None]
              \<and> fetches tr \<noteq> []"
    using run_reported(4) [OF run] by (simp add: send)
next
  show "fst (run w)
       = (case fst (getBearerToken w) of
            Inl err \<Rightarrow> 1
          | Inr token \<Rightarrow> (case fst (fetch_orgData w token) of Inl err \<Rightarrow> 1 | Inr od \<Rightarrow> 0))"
    by (rule run_exit_code)
qed

theorem missing_settings_witness:
  "run scenario_no_secret
     = (1, [ConsoleError ''Error retrieving token:''
              (Some (Error ''Missing PEPLINK_CLIENT_ID or PEPLINK_CLIENT_SECRET in .env''))])
   \<and> mails (snd (run scenario_no_smtp_host)) = []"
proof -
  have "falsy (env scenario_no_secret ''PEPLINK_CLIENT_ID'')
          \<or> falsy (env scenario_no_secret ''PEPLINK_CLIENT_SECRET'')"
    by (simp add: scenario_no_secret_def example_world_def example_env_def falsy_def)
  moreover have "smtp_missing scenario_no_smtp_host"
    by (simp add: smtp_missing_def scenario_no_smtp_host_def example_world_def example_env_def
          falsy_def)
  ultimately show ?thesis
    using missing_settings [of scenario_no_secret] missing_settings [of scenario_no_smtp_host]
    by blast
qed


section \<open>Delivery\<close>

lemma sendEmailWithCSV_configured:
  assumes "\<not> smtp_missing w"
  shows "\<exists>t m. attachment_content m = csv
           \<and> sendEmailWithCSV w csv
               = [SendMail t m,
                  (case sendMail w t m of
                     Inl err \<Rightarrow> ConsoleError ''Error sending email:'' (Some err)
                   | Inr messageId \<Rightarrow> ConsoleLog (''Email sent successfully: '' @ messageId))]"
proof -
  define t where "t = \<lparr>host = the (env w ''SMTP_HOST''), port = the (env w ''SMTP_PORT''),
      secure = True, auth_user = the (env w ''SMTP_USER''), auth_pass = the (env w ''SMTP_PASS'')\<rparr>"
  define m where "m = \<lparr>mail_from = (if falsy (env w ''SMTP_FROM'') then the (env w ''SMTP_USER'')
                                     else the (env w ''SMTP_FROM'')),
      mail_to = the (env w ''SMTP_TO''),
      subject = ''Peplink Warranty Expiry Report'',
      mail_text = ''Please see attached CSV with devices expiring in <= 90 days.<br><b>Remember</b> that these are only representative of devices we have InControl access to!'',
      attachment_filename = ''peplink_ic2_warranty_report.csv'',
      attachment_content = csv\<rparr>"
  have "sendEmailWithCSV w csv
               = [SendMail t m,
                  (case sendMail w t m of
                     Inl err \<Rightarrow> ConsoleError ''Error sending email:'' (Some err)
                   | Inr messageId \<Rightarrow> ConsoleLog (''Email sent successfully: '' @ messageId))]"
    using assms unfolding t_def m_def
    by (simp add: sendEmailWithCSV_def smtp_missing_def Let_def split: sum.splits)
  moreover have "attachment_content m = csv"
    by (simp add: m_def)
  ultimately show ?thesis
    by blast
qed

text \<open>
  C9. A run that has built its report exits with code 0, and its last effects are those
  of the delivery step, whatever they are. When a mail setting is missing at that time,
  the step logs the omission and does nothing else. Otherwise it hands the mail with the
  CSV attached to the transport, and logs the error when the transport throws. Neither
  the exit code nor the report depends on what the transport does.
\<close>

theorem delivery_failure_not_fatal:
  "(\<forall>ls. report (main w) = Some ls \<longrightarrow>
       fst (run w) = 0 \<and> (\<exists>tr. snd (run w) = tr @ sendEmailWithCSV w (join [LF] ls)))
   \<and> (smtp_missing w \<longrightarrow>
        sendEmailWithCSV w csv
          = [ConsoleError ''Missing SMTP settings in .env. Cannot send email.'' None])
   \<and> (\<not> smtp_missing w \<longrightarrow>
        (\<exists>t m. attachment_content m = csv
           \<and> sendEmailWithCSV w csv
               = [SendMail t m,
                  (case sendMail w t m of
                     Inl err \<Rightarrow> ConsoleError ''Error sending email:'' (Some err)
                   | Inr messageId \<Rightarrow> ConsoleLog (''Email sent successfully: '' @ messageId))]))
   \<and> fst (run (w\<lparr>sendMail := sm\<rparr>)) = fst (run w)
   \<and> report (main (w\<lparr>sendMail := sm\<rparr>)) = report (main w)"
proof (intro conjI allI impI)
  fix ls
  assume "report (main w) = Some ls"
  then obtain token tr0 od evs orgs where run: "getBearerToken w = (Inr token, tr0)"
    "fetch_orgData w token = (Inr od, evs)" "org_data od = Some orgs" "orgs \<noteq> []"
    and ls: "ls = report_lines w token orgs"
    by (rule report_SomeE)
  show "fst (run w) = 0"
    using run by (rule run_reported(1))
  show "\<exists>tr. snd (run w) = tr @ sendEmailWithCSV w (join [LF] ls)"
    using run_reported(4) [OF run] ls by blast
next
  assume "smtp_missing w"
  then show "sendEmailWithCSV w csv
          = [ConsoleError ''Missing SMTP settings in .env. Cannot send email.'' None]"
    unfolding smtp_missing_def by (rule sendEmailWithCSV_missing)
next
  assume "\<not> smtp_missing w"
  then show "\<exists>t m. attachment_content m = csv
           \<and> sendEmailWithCSV w csv
               = [SendMail t m,
                  (case sendMail w t m of
                     Inl err \<Rightarrow> ConsoleError ''Error sending email:'' (Some err)
                   | Inr messageId \<Rightarrow> ConsoleLog (''Email sent successfully: '' @ messageId))]"
    by (rule sendEmailWithCSV_configured)
next
  show "fst (run (w\<lparr>sendMail := sm\<rparr>)) = fst (run w)"
    by (simp add: run_exit_code sendMail_irrelevant cong: sum.case_cong)
  show "report (main (w\<lparr>sendMail := sm\<rparr>)) = report (main w)"
    by (simp add: report_main sendMail_irrelevant cong: sum.case_cong option.case_cong if_cong)
qed

theorem delivery_failure_not_fatal_witness:
  \<open>report (main scenario_F)
     = Some [csv_header, ''"Beta","AB1234","2023-12-29T22:13:20.000Z","45","NO"'']
   \<and> fst (run scenario_F) = 0
   \<and> last (snd (run scenario_F))
       = ConsoleError ''Error sending email:'' (Some (JsError ''Error'' ''connect ECONNREFUSED''))
   \<and> sendEmailWithCSV scenario_no_smtp_host csv_header
       = [ConsoleError ''Missing SMTP settings in .env. Cannot send email.'' None]\<close>
proof -
  have tok: "getBearerToken scenario_F
               = (Inr ''tok-1'', [Fetch (token_request ''client-1'' ''secret-1'')])"
    unfolding scenario_F_def by (rule example_token)
  have orgs: "fetch_orgData scenario_F ''tok-1''
     = (Inr \<lparr>org_data = Some [\<lparr>org_id = ''a'', org_name = ''Alpha''\<rparr>,
                              \<lparr>org_id = ''b'', org_name = ''Beta''\<rparr>]\<rparr>,
        [Fetch (orgs_request ''tok-1''),
         ConsoleLog (LF # ''Raw organization response body: '' @ orgs_body_AB)])"
    unfolding scenario_F_def by (rule example_orgs_AB)
  have rep: \<open>report (main scenario_F)
     = Some [csv_header, ''"Beta","AB1234","2023-12-29T22:13:20.000Z","45","NO"'']\<close>
    using main_run [OF tok orgs]
    by (simp add: report_lines_def scenario_F_def example_rows_a example_rows_b)
  have configured: "\<not> smtp_missing scenario_F"
    by (simp add: smtp_missing_def scenario_F_def example_world_def example_env_def falsy_def)
  have missing: "smtp_missing scenario_no_smtp_host"
    by (simp add: smtp_missing_def scenario_no_smtp_host_def example_world_def example_env_def
          falsy_def)
  have thrown: "sendMail scenario_F t m = Inl (JsError ''Error'' ''connect ECONNREFUSED'')" for t m
    by (simp add: scenario_F_def example_world_def)
  note d = delivery_failure_not_fatal
      [where w = scenario_F
         and csv = \<open>join [LF] [csv_header,
                     ''"Beta","AB1234","2023-12-29T22:13:20.000Z","45","NO"'']\<close>]
  from d [THEN conjunct1, rule_format, OF rep]
  obtain tr where "fst (run scenario_F) = 0"
    and tr: \<open>snd (run scenario_F)
      = tr @ sendEmailWithCSV scenario_F
               (join [LF] [csv_header, ''"Beta","AB1234","2023-12-29T22:13:20.000Z","45","NO"''])\<close>
    by blast
  moreover from d [THEN conjunct2, THEN conjunct2, THEN conjunct1, rule_format, OF configured]
  obtain t m where \<open>sendEmailWithCSV scenario_F
               (join [LF] [csv_header, ''"Beta","AB1234","2023-12-29T22:13:20.000Z","45","NO"''])
      = [SendMail t m, ConsoleError ''Error sending email:''
                         (Some (JsError ''Error'' ''connect ECONNREFUSED''))]\<close>
    unfolding thrown by auto
  moreover note delivery_failure_not_fatal
      [where w = scenario_no_smtp_host and csv = csv_header, THEN conjunct2, THEN conjunct1,
       THEN mp, OF missing]
  ultimately show ?thesis
    using rep by simp
qed


section \<open>The CSV text\<close>

lemma digit_no_LF: "k < 10 \<Longrightarrow> LF \<notin> set [''0123456789'' ! k]"
proof -
  assume "k < 10"
  then have "''0123456789'' ! k \<in> set ''0123456789''"
    by (intro nth_mem) simp
  then show ?thesis
    by auto
qed

lemma show_nat_no_LF: "LF \<notin> set (show_nat n)"
proof (induction n rule: show_nat.induct)
  case (1 n)
  show ?case
  proof (cases "n < 10")
    case True
    then have eq: "show_nat n = [''0123456789'' ! n]"
      by (simp add: show_nat.simps [of n])
    show ?thesis
      unfolding eq using True by (rule digit_no_LF)
  next
    case False
    then have eq: "show_nat n = show_nat (n div 10) @ [''0123456789'' ! (n mod 10)]"
      by (simp add: show_nat.simps [of n])
    have "LF \<notin> set [''0123456789'' ! (n mod 10)]"
      by (rule digit_no_LF) simp
    moreover have "LF \<notin> set (show_nat (n div 10))"
      using False by (rule 1)
    ultimately show ?thesis
      unfolding eq set_append by blast
  qed
qed

lemma show_int_no_LF: "LF \<notin> set (show_int i)"
  by (simp add: show_int_def show_nat_no_LF)

lemma normalize_serial_no_LF: "LF \<notin> set (normalize_serial s)"
  by (simp add: normalize_serial_filter is_alnum_def less_eq_char_def)

lemma csv_row_quoted:
  "csv_row orgName serial expiry daysLeft isExpired
     = join '','' (map quoted [orgName, serial, expiry, show_int daysLeft, isExpired])"
  by (simp add: csv_row_def quoted_def)

lemma csv_row_no_LF:
  assumes "LF \<notin> set orgName" and "LF \<notin> set expiry"
  shows "LF \<notin> set (csv_row orgName (normalize_serial s) expiry daysLeft
                      (if flag then ''YES'' else ''NO''))"
  using assms by (simp add: csv_row_def show_int_no_LF normalize_serial_no_LF)

lemma device_rows_form:
  "device_rows w n d = []
   \<or> (\<exists>s e t. sn d = Some s \<and> expiry_date d = Some e \<and> date_parse w e = Some t
         \<and> device_rows w n d
             = [csv_row n (normalize_serial s) e (diffInDays t (clock w))
                  (if expired d then ''YES'' else ''NO'')])"
  by (auto simp add: device_rows_def device_step_def falsy_def Let_def split: option.splits)

lemma device_rows_no_LF:
  assumes "LF \<notin> set n" and "\<forall>e. expiry_date d = Some e \<longrightarrow> LF \<notin> set e"
    and "row \<in> set (device_rows w n d)"
  shows "LF \<notin> set row"
proof -
  from device_rows_form [of w n d] assms(3)
  obtain s e t where "expiry_date d = Some e"
    and "row = csv_row n (normalize_serial s) e (diffInDays t (clock w))
                 (if expired d then ''YES'' else ''NO'')"
    by auto
  with assms(1,2) show ?thesis
    by (simp only: csv_row_no_LF not_False_eq_True)
qed

text \<open>
  C7, as the specification states it, fails. The name of the only organization of
  scenario N holds a line feed; the report of the run has the header and one row, and
  the CSV text has three lines.
\<close>

theorem csv_lines_counterexample:
  \<open>report (main scenario_N)
     = Some [csv_header,
             CHR 0x22 # ''North'' @ LF # ''South","AB1234","2023-12-29T22:13:20.000Z","45","NO"'']
   \<and> lines_of (join [LF]
        [csv_header,
         CHR 0x22 # ''North'' @ LF # ''South","AB1234","2023-12-29T22:13:20.000Z","45","NO"''])
     = [csv_header, CHR 0x22 # ''North'',
        ''South","AB1234","2023-12-29T22:13:20.000Z","45","NO"'']\<close>
proof -
  have tok: "getBearerToken scenario_N
               = (Inr ''tok-1'', [Fetch (token_request ''client-1'' ''secret-1'')])"
    unfolding scenario_N_def by (rule example_token)
  have orgs: "fetch_orgData scenario_N ''tok-1''
     = (Inr \<lparr>org_data = Some [\<lparr>org_id = ''b'', org_name = ''North'' @ [LF] @ ''South''\<rparr>]\<rparr>,
        [Fetch (orgs_request ''tok-1''),
         ConsoleLog (LF # ''Raw organization response body: '' @ orgs_body_N)])"
    unfolding scenario_N_def
    by (simp add: example_orgs example_parse_orgData_def orgs_body_AB_def orgs_body_G_def
          orgs_body_N_def)
  have \<open>report (main scenario_N)
     = Some [csv_header,
             CHR 0x22 # ''North'' @ LF # ''South","AB1234","2023-12-29T22:13:20.000Z","45","NO"'']\<close>
    using main_run [OF tok orgs]
    by (simp add: report_lines_def scenario_N_def example_rows_b)
  moreover have \<open>lines_of (join [LF]
        [csv_header,
         CHR 0x22 # ''North'' @ LF # ''South","AB1234","2023-12-29T22:13:20.000Z","45","NO"''])
     = [csv_header, CHR 0x22 # ''North'',
        ''South","AB1234","2023-12-29T22:13:20.000Z","45","NO"'']\<close>
    by (simp add: csv_header_def)
  ultimately show ?thesis
    by (rule conjI)
qed

text \<open>
  C7, amended. In a run that builds its report, the report is the header line
  \<^verbatim>\<open>org_name,serial_number,warranty_expiry_date,days_until_expiry,is_expired\<close> followed by
  one entry for each row, organizations in the order of the API and the devices of each
  in the order of the API; with \<open>n\<close> rows it has \<open>n + 1\<close> entries, and the CSV text handed
  to the delivery step is these entries joined by line feeds. Each row is its five
  fields, every one between double quotes with its characters unchanged, joined by
  commas. If no organization name and no expiry date of a device holds a line feed, the
  lines of the CSV text are exactly these entries, so the text has \<open>n + 1\<close> lines.
\<close>

theorem csv_output_lines:
  assumes "getBearerToken w = (Inr token, tr0)"
    and "fetch_orgData w token = (Inr od, evs)"
    and "org_data od = Some orgs" and "orgs \<noteq> []"
  shows "report (main w) = Some (report_lines w token orgs)
    \<and> report_lines w token orgs
        = ''org_name,serial_number,warranty_expiry_date,days_until_expiry,is_expired''
          # concat (map (\<lambda>org. concat (map (device_rows w (org_name org))
                                        (fetched_devices w token (org_id org)))) orgs)
    \<and> length (report_lines w token orgs) = length (concat (map (org_rows w token) orgs)) + 1
    \<and> (\<exists>tr. snd (run w) = tr @ sendEmailWithCSV w (join [LF] (report_lines w token orgs)))
    \<and> (\<forall>n d. device_rows w n d = []
          \<or> (\<exists>s e t. sn d = Some s \<and> expiry_date d = Some e \<and> date_parse w e = Some t
                \<and> device_rows w n d
                    = [join '','' (map quoted [n, normalize_serial s, e,
                                                show_int (diffInDays t (clock w)),
                                                if expired d then ''YES'' else ''NO''])]))
    \<and> ((\<forall>org \<in> set orgs. LF \<notin> set (org_name org)
            \<and> (\<forall>d \<in> set (fetched_devices w token (org_id org)).
                  \<forall>e. expiry_date d = Some e \<longrightarrow> LF \<notin> set e)) \<longrightarrow>
        lines_of (join [LF] (report_lines w token orgs)) = report_lines w token orgs)"
proof (intro conjI allI impI)
  show "report (main w) = Some (report_lines w token orgs)"
    using assms by (simp add: main_run)
  show "report_lines w token orgs
        = ''org_name,serial_number,warranty_expiry_date,days_until_expiry,is_expired''
          # concat (map (\<lambda>org. concat (map (device_rows w (org_name org))
                                        (fetched_devices w token (org_id org)))) orgs)"
    by (simp add: report_lines_def org_rows_def [abs_def] csv_header_def)
  show "length (report_lines w token orgs) = length (concat (map (org_rows w token) orgs)) + 1"
    by (simp add: report_lines_def)
  show "\<exists>tr. snd (run w) = tr @ sendEmailWithCSV w (join [LF] (report_lines w token orgs))"
    using run_reported(4) [OF assms] by blast
next
  fix n and d :: device
  show "device_rows w n d = []
          \<or> (\<exists>s e t. sn d = Some s \<and> expiry_date d = Some e \<and> date_parse w e = Some t
                \<and> device_rows w n d
                    = [join '','' (map quoted [n, normalize_serial s, e,
                                                show_int (diffInDays t (clock w)),
                                                if expired d then ''YES'' else ''NO''])])"
    using device_rows_form [of w n d] by (simp only: csv_row_quoted)
next
  assume clean: "\<forall>org \<in> set orgs. LF \<notin> set (org_name org)
            \<and> (\<forall>d \<in> set (fetched_devices w token (org_id org)).
                  \<forall>e. expiry_date d = Some e \<longrightarrow> LF \<notin> set e)"
  have "LF \<notin> set l" if "l \<in> set (report_lines w token orgs)" for l
  proof (cases "l = csv_header")
    case True
    then show ?thesis by (simp add: csv_header_def)
  next
    case False
    with that obtain org d where "org \<in> set orgs"
      and "d \<in> set (fetched_devices w token (org_id org))"
      and "l \<in> set (device_rows w (org_name org) d)"
      by (auto simp add: report_lines_def org_rows_def)
    with clean show ?thesis
      by (intro device_rows_no_LF [of "org_name org" d l w]) auto
  qed
  moreover have "report_lines w token orgs \<noteq> []"
    by (simp add: report_lines_def)
  ultimately show "lines_of (join [LF] (report_lines w token orgs)) = report_lines w token orgs"
    by (intro lines_of_join)
qed

theorem csv_output_lines_witness:
  \<open>report (main scenario_G)
     = Some [csv_header,
             ''"Gamma","AB1234","2023-12-29T22:13:20.000Z","45","NO"'',
             ''"Gamma","","2024-02-12T22:13:20.000Z","90","NO"'',
             ''"Gamma","EF9","2023-11-04T22:13:20.000Z","-10","YES"'']
   \<and> lines_of (join [LF]
        [csv_header,
         ''"Gamma","AB1234","2023-12-29T22:13:20.000Z","45","NO"'',
         ''"Gamma","","2024-02-12T22:13:20.000Z","90","NO"'',
         ''"Gamma","EF9","2023-11-04T22:13:20.000Z","-10","YES"''])
     = [csv_header,
        ''"Gamma","AB1234","2023-12-29T22:13:20.000Z","45","NO"'',
        ''"Gamma","","2024-02-12T22:13:20.000Z","90","NO"'',
        ''"Gamma","EF9","2023-11-04T22:13:20.000Z","-10","YES"'']\<close>
proof -
  have tok: "getBearerToken scenario_G
               = (Inr ''tok-1'', [Fetch (token_request ''client-1'' ''secret-1'')])"
    unfolding scenario_G_def by (rule example_token)
  have orgs: "fetch_orgData scenario_G ''tok-1''
               = (Inr \<lparr>org_data = Some [\<lparr>org_id = ''g'', org_name = ''Gamma''\<rparr>]\<rparr>,
                  [Fetch (orgs_request ''tok-1''),
                   ConsoleLog (LF # ''Raw organization response body: '' @ orgs_body_G)])"
    unfolding scenario_G_def
    by (simp add: example_orgs example_parse_orgData_def orgs_body_G_def orgs_body_AB_def)
  have lines: \<open>report_lines scenario_G ''tok-1'' [\<lparr>org_id = ''g'', org_name = ''Gamma''\<rparr>]
     = [csv_header,
        ''"Gamma","AB1234","2023-12-29T22:13:20.000Z","45","NO"'',
        ''"Gamma","","2024-02-12T22:13:20.000Z","90","NO"'',
        ''"Gamma","EF9","2023-11-04T22:13:20.000Z","-10","YES"'']\<close>
    unfolding scenario_G_def by (simp add: report_lines_def example_rows_g)
  have clean: "\<forall>org \<in> set [\<lparr>org_id = ''g'', org_name = ''Gamma''\<rparr>]. LF \<notin> set (org_name org)
            \<and> (\<forall>d \<in> set (fetched_devices scenario_G ''tok-1'' (org_id org)).
                  \<forall>e. expiry_date d = Some e \<longrightarrow> LF \<notin> set e)"
    unfolding scenario_G_def by (simp add: example_devices_g device_45_def)
  note c = csv_output_lines [OF tok orgs, of "[\<lparr>org_id = ''g'', org_name = ''Gamma''\<rparr>]"]
  have "org_data \<lparr>org_data = Some [\<lparr>org_id = ''g'', org_name = ''Gamma''\<rparr>]\<rparr>
          = Some [\<lparr>org_id = ''g'', org_name = ''Gamma''\<rparr>]"
    and "[\<lparr>org_id = ''g'', org_name = ''Gamma''\<rparr>] \<noteq> []"
    by simp_all
  note c' = c [OF this]
  from c' [THEN conjunct1]
    c' [THEN conjunct2, THEN conjunct2, THEN conjunct2, THEN conjunct2, THEN conjunct2,
        THEN mp, OF clean]
  show ?thesis
    unfolding lines by (rule conjI)
qed


end
